theory Spec2Isabelle
  imports Complex_Main "HOL-Library.Log_Nat"
begin

section \<open>Python values used by the assessment pipeline\<close>

text \<open>
  The repository is Python. The texts that the program compares with its own literals,
  cuts at them and passes on are modelled as \<^typ>\<open>string\<close>, a list of characters with
  code points 0 to 255; the methods on them are Python's on that range. The heuristic
  grader measures the length of lowercased words, and \<open>str.lower\<close> does not keep the
  number of characters of every text, so the texts of the grader are lists of Unicode
  code points and \<open>str.lower\<close> is a parameter of the grader.
  The quotient of two counts and the product with 100 are double precision operations in
  Python; they are modelled by exact rationals rounded to 53 significant bits (round half
  to even), without overflow or underflow, which the quotients and percentages of this
  program never reach.
\<close>

subsection \<open>Text methods\<close>

text \<open>\<open>str.isspace\<close> on one character of a \<^typ>\<open>string\<close>.\<close>

definition is_space :: "char \<Rightarrow> bool" where
  "is_space c = (let n = (of_char c :: nat) in
     (9 \<le> n \<and> n \<le> 13) \<or> (28 \<le> n \<and> n \<le> 32) \<or> n = 133 \<or> n = 160)"

text \<open>A text of the grader: the list of its code points. \<open>py\<close> gives the text of a
  literal.\<close>

type_synonym pystr = "int list"

definition py :: "string \<Rightarrow> pystr" where
  "py s = map of_char s"

text \<open>\<open>str.isspace\<close> on one code point: the 29 white space characters of Unicode.\<close>

definition cp_is_space :: "int \<Rightarrow> bool" where
  "cp_is_space n =
     ((9 \<le> n \<and> n \<le> 13) \<or> (28 \<le> n \<and> n \<le> 32) \<or> n = 133 \<or> n = 160 \<or> n = 5760
      \<or> (8192 \<le> n \<and> n \<le> 8202) \<or> n = 8232 \<or> n = 8233 \<or> n = 8239 \<or> n = 8287
      \<or> n = 12288)"

text \<open>\<open>str.lower\<close> is a function of Python, not of the repository, and the grader takes
  it as the parameter \<open>lower\<close>. The examples use \<open>lower_small\<close>, which is \<open>str.lower\<close> on
  every text whose code points are below 256 or the capital I with a dot above (U+0130,
  code point 304): the letters A to Z and the capital letters 192 to 222 (but not the
  multiplication sign 215) move up by 32, and the capital I with a dot becomes the two
  code points of a small i and a combining dot above.\<close>

definition lower_cp :: "int \<Rightarrow> pystr" where
  "lower_cp n =
     (if (65 \<le> n \<and> n \<le> 90) \<or> (192 \<le> n \<and> n \<le> 222 \<and> n \<noteq> 215) then [n + 32]
      else if n = 304 then [105, 775]
      else [n])"

definition lower_small :: "pystr \<Rightarrow> pystr" where
  "lower_small s = concat (map lower_cp s)"

text \<open>\<open>s.split()\<close> with no separator: the maximal runs of characters that are not
  white space, in order. The first argument is the run being read.\<close>

fun split_acc :: "pystr \<Rightarrow> pystr \<Rightarrow> pystr list" where
  "split_acc w [] = (if w = [] then [] else [w])"
| "split_acc w (c # cs) =
     (if cp_is_space c then (if w = [] then split_acc [] cs else w # split_acc [] cs)
      else split_acc (w @ [c]) cs)"

definition py_split :: "pystr \<Rightarrow> pystr list" where
  "py_split s = split_acc [] s"

text \<open>\<open>s.strip(chars)\<close> removes the characters of \<open>chars\<close> from both ends, and
  \<open>s.strip()\<close> removes white space from both ends.\<close>

definition strip_chars :: "'a list \<Rightarrow> 'a list \<Rightarrow> 'a list" where
  "strip_chars chars s =
     rev (dropWhile (\<lambda>c. c \<in> set chars) (rev (dropWhile (\<lambda>c. c \<in> set chars) s)))"

definition py_strip :: "string \<Rightarrow> string" where
  "py_strip s = rev (dropWhile is_space (rev (dropWhile is_space s)))"

text \<open>\<open>k in s\<close> for two texts: \<open>k\<close> occurs in \<open>s\<close> as a contiguous piece.\<close>

fun starts_with :: "'a list \<Rightarrow> 'a list \<Rightarrow> bool" where
  "starts_with [] s = True"
| "starts_with (k # ks) [] = False"
| "starts_with (k # ks) (c # cs) = (k = c \<and> starts_with ks cs)"

fun contains :: "'a list \<Rightarrow> 'a list \<Rightarrow> bool" where
  "contains k [] = (k = [])"
| "contains k (c # cs) = (starts_with k (c # cs) \<or> contains k cs)"

text \<open>The decimal digits of an integer, as \<open>str(n)\<close> and an f-string print it.\<close>

fun show_nat :: "nat \<Rightarrow> string" where
  "show_nat n = (if n < 10 then [char_of (48 + n)]
     else show_nat (n div 10) @ [char_of (48 + n mod 10)])"

declare show_nat.simps [simp del]

definition show_int :: "int \<Rightarrow> string" where
  "show_int i = (if i < 0 then CHR ''-'' # show_nat (nat (- i)) else show_nat (nat i))"

subsection \<open>Double precision arithmetic\<close>

text \<open>The exponent \<open>e\<close> of a positive rational \<open>x\<close>: \<open>2 ^ e \<le> x < 2 ^ (e + 1)\<close>.\<close>

definition ilog2 :: "rat \<Rightarrow> int" where
  "ilog2 x = (case quotient_of x of (p, q) \<Rightarrow>
     let d = bitlen p - bitlen q in if 2 powi d \<le> x then d else d - 1)"

definition round_half_even :: "rat \<Rightarrow> int" where
  "round_half_even r = (let f = \<lfloor>r\<rfloor>; d = r - of_int f in
     if d < 1 / 2 then f else if 1 / 2 < d then f + 1 else if even f then f else f + 1)"

text \<open>The double nearest to \<open>x\<close>: a multiple of \<open>2 ^ (e - 52)\<close>, ties to the even one.\<close>

definition fl :: "rat \<Rightarrow> rat" where
  "fl x = (if x = 0 then 0 else
     let u = 2 powi (ilog2 \<bar>x\<bar> - 52) in sgn x * (of_int (round_half_even (\<bar>x\<bar> / u)) * u))"

text \<open>\<open>a / b\<close> on two integers (\<open>b\<close> not zero), \<open>x * y\<close> on two floats, \<open>int(x)\<close>
  (towards zero) and \<open>round(x)\<close> on a float.\<close>

definition true_div :: "nat \<Rightarrow> nat \<Rightarrow> rat" where
  "true_div a b = fl (of_nat a / of_nat b)"

definition float_mul :: "rat \<Rightarrow> rat \<Rightarrow> rat" where
  "float_mul x y = fl (x * y)"

definition int_of_float :: "rat \<Rightarrow> int" where
  "int_of_float x = (if 0 \<le> x then \<lfloor>x\<rfloor> else \<lceil>x\<rceil>)"

definition py_round :: "rat \<Rightarrow> int" where
  "py_round x = round_half_even x"

section \<open>The heuristic grader: \<open>Evaluator._fallback_evaluation\<close>\<close>

text \<open>The argument of \<open>word.strip\<close> in the source: full stop, comma, semicolon, colon,
  the three pairs of brackets, and the two quote characters.\<close>

definition punctuation :: pystr where
  "punctuation = py (''.,;:()[]{}'' @ [CHR 0x22, CHR 0x27, CHR 0x22])"

text \<open>The set \<open>expected_keywords\<close>, as the list of its members: a word of the lowercased
  expected answer is kept when the word itself has more than 4 characters, and is then
  stripped.\<close>

definition expected_keywords :: "(pystr \<Rightarrow> pystr) \<Rightarrow> pystr \<Rightarrow> pystr list" where
  "expected_keywords lower expected_answer =
     remdups (map (strip_chars punctuation)
       (filter (\<lambda>word. 4 < length word) (py_split (lower expected_answer))))"

text \<open>The loop over the keywords, with the counter \<open>matching_keywords\<close>.\<close>

fun count_matching :: "pystr list \<Rightarrow> pystr \<Rightarrow> nat \<Rightarrow> nat" where
  "count_matching [] student_text matching_keywords = matching_keywords"
| "count_matching (keyword # keywords) student_text matching_keywords =
     count_matching keywords student_text
       (if contains keyword student_text then matching_keywords + 1 else matching_keywords)"

definition matching_keywords :: "(pystr \<Rightarrow> pystr) \<Rightarrow> pystr \<Rightarrow> pystr \<Rightarrow> nat" where
  "matching_keywords lower student_answer expected_answer =
     count_matching (expected_keywords lower expected_answer) (lower student_answer) 0"

definition match_percentage :: "(pystr \<Rightarrow> pystr) \<Rightarrow> pystr \<Rightarrow> pystr \<Rightarrow> rat" where
  "match_percentage lower student_answer expected_answer =
     (if expected_keywords lower expected_answer \<noteq> []
      then true_div (matching_keywords lower student_answer expected_answer)
             (length (expected_keywords lower expected_answer))
      else 0)"

definition percent_shown :: "(pystr \<Rightarrow> pystr) \<Rightarrow> pystr \<Rightarrow> pystr \<Rightarrow> int" where
  "percent_shown lower student_answer expected_answer =
     int_of_float (float_mul (match_percentage lower student_answer expected_answer) 100)"

definition fallback_evaluation ::
  "(pystr \<Rightarrow> pystr) \<Rightarrow> pystr \<Rightarrow> pystr \<Rightarrow> bool \<times> pystr" where
  "fallback_evaluation lower student_answer expected_answer =
     (let is_correct = (1 / 2 \<le> match_percentage lower student_answer expected_answer);
          shown = py (show_int (percent_shown lower student_answer expected_answer))
      in if is_correct
         then (is_correct, py ''The answer covers approximately '' @ shown @
                 py ''% of the key concepts expected.'')
         else (is_correct,
                 py ''The answer is missing several important concepts (only covers about '' @
                 shown @ py ''% of expected key points).''))"

section \<open>Answer normalisation: \<open>Evaluator._process_answer\<close>\<close>

text \<open>
  Reading the audio file and calling the transcription service, and reading and resizing
  the image file, are outside the program: \<open>transcribe_with_sambanova\<close> is the outcome of
  \<open>AudioTranscriber._transcribe_with_sambanova\<close> (the transcript, or \<open>None\<close> when the
  call fails) and \<open>process_image_for_ai\<close> the outcome of
  \<open>MediaProcessor.process_image_for_ai\<close> (the base64 text, or \<open>None\<close>). Both catch every
  exception in the source.
\<close>

record media_env =
  transcribe_with_sambanova :: "string \<Rightarrow> string option"
  process_image_for_ai :: "string \<Rightarrow> string option"

text \<open>Python's truth value of an optional text: \<open>None\<close> and the empty text are false.\<close>

definition truthy :: "string option \<Rightarrow> bool" where
  "truthy x = (case x of None \<Rightarrow> False | Some s \<Rightarrow> s \<noteq> [])"

definition fallback_transcription :: "string \<Rightarrow> string" where
  "fallback_transcription audio_path =
     ''This is a fallback transcription. The SambaNova API could not process this audio.''"

definition transcribe_audio :: "media_env \<Rightarrow> string \<Rightarrow> string" where
  "transcribe_audio env audio_path =
     (let transcript = transcribe_with_sambanova env audio_path
      in if truthy transcript then (case transcript of Some t \<Rightarrow> t | None \<Rightarrow> [])
         else fallback_transcription audio_path)"

definition create_image_description :: "string option \<Rightarrow> string" where
  "create_image_description image_base64 =
     ''An image showing a person demonstrating soft skills in a professional environment.''"

text \<open>The answer and the media path are a text or \<open>None\<close>; so is the result, which is the
  answer itself in the first and in the last branch.\<close>

definition process_answer ::
  "media_env \<Rightarrow> string option \<Rightarrow> string \<Rightarrow> string option \<Rightarrow> string option" where
  "process_answer env answer answer_type media_path =
     (if answer_type = ''Text'' then answer
      else if answer_type = ''Audio'' \<and> truthy media_path then
        (case media_path of
           Some p \<Rightarrow> Some (''Audio Answer Transcript: '' @ transcribe_audio env p)
         | None \<Rightarrow> None)
      else if answer_type = ''Image'' \<and> truthy media_path then
        (case media_path of
           Some p \<Rightarrow> Some (''Image Answer Description: '' @
                      create_image_description (process_image_for_ai env p))
         | None \<Rightarrow> None)
      else if truthy answer then answer else Some ''No answer provided'')"

section \<open>Session scoring: \<open>end_session\<close>\<close>

text \<open>A session of \<open>active_sessions\<close>. An evaluation is the pair of the verdict and the
  explanation; times are clock readings. The database is the list of statements sent to
  it.\<close>

record session =
  s_skill :: string
  s_level :: string
  s_start_time :: nat
  s_end_time :: "nat option"
  s_questions :: "string list"
  s_current_question_index :: int
  s_answers :: "string list"
  s_evaluations :: "(bool \<times> string) list"
  s_score :: int

datatype sql =
    InsertSession string string string
  | UpdateSessionEnd int string

record app_state =
  active_sessions :: "string \<rightharpoonup> session"
  db_log :: "sql list"

text \<open>\<open>end_session(session_id)\<close> at clock reading \<open>now\<close>: the score returned and the new
  state.\<close>

definition end_session :: "nat \<Rightarrow> string \<Rightarrow> app_state \<Rightarrow> int \<times> app_state" where
  "end_session now session_id st =
     (case active_sessions st session_id of
        Some session0 \<Rightarrow>
          (let session1 = session0\<lparr>s_end_time := Some now\<rparr>;
               session2 =
                 (if 0 < length (s_evaluations session1) then
                    (let correct_answers = length (filter fst (s_evaluations session1));
                         total_questions = length (s_evaluations session1)
                     in session1\<lparr>s_score :=
                          int_of_float (float_mul (true_div correct_answers total_questions) 100)\<rparr>)
                  else session1)
           in (s_score session2,
               st\<lparr>active_sessions := (active_sessions st)(session_id \<mapsto> session2),
                  db_log := db_log st @ [UpdateSessionEnd (s_score session2) session_id]\<rparr>))
      | None \<Rightarrow> (0, st))"

section \<open>JSON values and exceptions\<close>

text \<open>The values that \<open>json.loads\<close> returns: \<open>None\<close>, a truth value, an integer, a float, a
  text, a list, or a dictionary with text keys (its items in order, the keys distinct).
  An exception is a value of \<open>error\<close>; \<open>Exception\<close> carries the message of a plain
  \<open>raise Exception(message)\<close>.\<close>

datatype json =
    JNull
  | JBool bool
  | JInt int
  | JFloat rat
  | JStr string
  | JArr "json list"
  | JObj "(string \<times> json) list"

datatype error =
    TypeError
  | AttributeError
  | KeyError
  | IndexError
  | JSONDecodeError
  | RequestException
  | Exception string

text \<open>A computation that may raise returns \<open>Inl\<close> of the exception; \<open>and_then\<close> runs the
  next step when the first one returned.\<close>

definition and_then :: "error + 'a \<Rightarrow> ('a \<Rightarrow> error + 'b) \<Rightarrow> error + 'b" where
  "and_then r f = (case r of Inl e \<Rightarrow> Inl e | Inr x \<Rightarrow> f x)"

text \<open>\<open>xs[i]\<close> raises \<open>IndexError\<close> out of range.\<close>

definition item :: "'a list \<Rightarrow> nat \<Rightarrow> error + 'a" where
  "item xs i = (if i < length xs then Inr (xs ! i) else Inl IndexError)"

section \<open>Extraction of JSON from free text: \<open>_extract_json\<close>\<close>

text \<open>\<open>s.split(sep)\<close> for a separator that is not empty (the source passes literals):
  the pieces between the occurrences of \<open>sep\<close>, found from left to right without
  overlap. The second argument is the piece being read, the third the number of
  characters of a separator still to skip.\<close>

fun split_sep_acc :: "string \<Rightarrow> string \<Rightarrow> nat \<Rightarrow> string \<Rightarrow> string list" where
  "split_sep_acc sep piece skip [] = [piece]"
| "split_sep_acc sep piece (Suc skip) (c # cs) = split_sep_acc sep piece skip cs"
| "split_sep_acc sep piece 0 (c # cs) =
     (if starts_with sep (c # cs) then piece # split_sep_acc sep [] (length sep - 1) cs
      else split_sep_acc sep (piece @ [c]) 0 cs)"

definition split_sep :: "string \<Rightarrow> string \<Rightarrow> string list" where
  "split_sep sep s = split_sep_acc sep [] 0 s"

text \<open>\<open>re.search(r'\{.*\}', text, re.DOTALL)\<close>: the dot matches every character and the
  star is greedy, so the match runs from the first opening brace to the last closing
  brace after it; there is no match when no closing brace follows the first opening
  one.\<close>

definition brace_search :: "string \<Rightarrow> string option" where
  "brace_search s =
     (let from_open = dropWhile (\<lambda>c. c \<noteq> CHR ''{'') s;
          matched = rev (dropWhile (\<lambda>c. c \<noteq> CHR ''}'') (rev from_open))
      in if matched = [] then None else Some matched)"

text \<open>\<open>_extract_json(text)\<close>, the same in \<open>Evaluator\<close> and in \<open>QuestionGenerator\<close>.
  \<open>json.loads\<close> is a function of the Python library, not of the repository: it is the
  parameter \<open>loads\<close>. The source calls it on the candidate of the second branch only to
  see whether it raises.\<close>

definition extract_json :: "(string \<Rightarrow> error + json) \<Rightarrow> string \<Rightarrow> error + string" where
  "extract_json loads text =
     (let search = (case brace_search text of Some json_match \<Rightarrow> Inr json_match | None \<Rightarrow> Inr text)
      in if contains ''```json'' text \<and> contains ''```'' text then
           and_then (item (split_sep ''```json'' text) 1) (\<lambda>after.
           and_then (item (split_sep ''```'' after) 0) (\<lambda>inside. Inr (py_strip inside)))
         else if contains ''```'' text then
           and_then (item (split_sep ''```'' text) 1) (\<lambda>after.
           and_then (item (split_sep ''```'' after) 0) (\<lambda>inside.
             (let json_candidate = py_strip inside
              in case loads json_candidate of Inr v \<Rightarrow> Inr json_candidate | Inl e \<Rightarrow> search)))
         else search)"

section \<open>The completion client: \<open>_make_api_request\<close>\<close>

text \<open>
  The request that \<open>requests.post\<close> sends: the model, the prompt, the bound on the output
  and the temperature. The program only sends the prompt, so its type is a parameter.
  The network and the Python library are the record \<open>library\<close>: \<open>requests_post\<close> gives,
  for a payload, the response or the exception of the call; \<open>json_loads\<close> is
  \<open>json.loads\<close>, which also stands for \<open>response.json()\<close> on the text of the response;
  \<open>py_repr\<close> is \<open>str\<close> of a value that is not a text.
\<close>

record 'p payload =
  p_model :: string
  p_prompt :: 'p
  p_max_tokens :: nat
  p_temperature :: rat

datatype http_response = Response (status_code: int) (response_text: string)

record 'p library =
  requests_post :: "'p payload \<Rightarrow> error + http_response"
  json_loads :: "string \<Rightarrow> error + json"
  py_repr :: "json \<Rightarrow> string"

text \<open>The model names of \<open>config.py\<close>.\<close>

definition SAMBANOVA_MODEL_NAME :: string where
  "SAMBANOVA_MODEL_NAME = ''sambanova-llm''"

definition ALTERNATIVE_MODELS :: "string list" where
  "ALTERNATIVE_MODELS = [''sambanova-chat'', ''sambanova-1.5-chat'', ''llama-7b'', ''llama2-7b'']"

text \<open>Python's operations on a value whose type is only known at run time.
  \<open>k in x\<close> looks for a key of a dictionary, a member of a list, or a piece of a text,
  and raises \<open>TypeError\<close> on every other value.\<close>

fun key_in :: "string \<Rightarrow> json \<Rightarrow> error + bool" where
  "key_in k (JObj items) = Inr (k \<in> set (map fst items))"
| "key_in k (JArr xs) = Inr (JStr k \<in> set xs)"
| "key_in k (JStr s) = Inr (contains k s)"
| "key_in k v = Inl TypeError"

text \<open>\<open>x.get(k, d)\<close> exists on dictionaries only.\<close>

fun py_get :: "json \<Rightarrow> string \<Rightarrow> json \<Rightarrow> error + json" where
  "py_get (JObj items) k d = Inr (case map_of items k of Some v \<Rightarrow> v | None \<Rightarrow> d)"
| "py_get v k d = Inl AttributeError"

text \<open>\<open>d[k]\<close> on a dictionary, and \<open>x[k]\<close> for a text key \<open>k\<close> on any value.\<close>

definition getitem :: "(string \<times> json) list \<Rightarrow> string \<Rightarrow> error + json" where
  "getitem items k = (case map_of items k of Some v \<Rightarrow> Inr v | None \<Rightarrow> Inl KeyError)"

fun subscript :: "json \<Rightarrow> string \<Rightarrow> error + json" where
  "subscript (JObj items) k = getitem items k"
| "subscript v k = Inl TypeError"

text \<open>\<open>len(x)\<close> and \<open>x[0]\<close>. A dictionary made from JSON has no key \<open>0\<close>.\<close>

fun py_len :: "json \<Rightarrow> error + nat" where
  "py_len (JStr s) = Inr (length s)"
| "py_len (JArr xs) = Inr (length xs)"
| "py_len (JObj items) = Inr (length items)"
| "py_len v = Inl TypeError"

fun first_item :: "json \<Rightarrow> error + json" where
  "first_item (JArr []) = Inl IndexError"
| "first_item (JArr (v # vs)) = Inr v"
| "first_item (JStr []) = Inl IndexError"
| "first_item (JStr (c # cs)) = Inr (JStr [c])"
| "first_item (JObj items) = Inl KeyError"
| "first_item v = Inl TypeError"

text \<open>\<open>str(x)\<close>, also the way an f-string prints \<open>x\<close>: a text is itself.\<close>

definition py_str :: "'p library \<Rightarrow> json \<Rightarrow> string" where
  "py_str lib v = (case v of JStr s \<Rightarrow> s | _ \<Rightarrow> py_repr lib v)"

text \<open>The content of a response with status 200: the member \<open>text\<close>, or the member
  \<open>text\<close> of the first of the \<open>choices\<close>, or the whole body as a text.\<close>

definition response_content :: "'p library \<Rightarrow> json \<Rightarrow> error + json" where
  "response_content lib response_data =
     and_then (key_in ''text'' response_data) (\<lambda>has_text.
       if has_text then py_get response_data ''text'' (JStr [])
       else and_then (key_in ''choices'' response_data) (\<lambda>has_choices.
         if has_choices then
           and_then (subscript response_data ''choices'') (\<lambda>choices.
           and_then (py_len choices) (\<lambda>n.
             if 0 < n then and_then (first_item choices) (\<lambda>choice. py_get choice ''text'' (JStr []))
             else Inr (JStr (py_str lib response_data))))
         else Inr (JStr (py_str lib response_data))))"

text \<open>\<open>_extract_json(content)\<close> for a content of any type. On a value that is not a text,
  \<open>in\<close> succeeds on lists and dictionaries only, and then \<open>split\<close> (when the value holds
  the fence) or \<open>re.search\<close> raises.\<close>

fun extract_json_of :: "(string \<Rightarrow> error + json) \<Rightarrow> json \<Rightarrow> error + string" where
  "extract_json_of loads (JStr s) = extract_json loads s"
| "extract_json_of loads content =
     and_then (key_in ''```json'' content) (\<lambda>has_json_fence.
     and_then (key_in ''```'' content) (\<lambda>has_fence.
       if has_fence then Inl AttributeError else Inl TypeError))"

text \<open>One pass of the loop over the models: the body returns the parsed JSON, or goes on
  to the next model after a 404 response with "Model not found", after any other response
  that is not 200 (logged), or after an exception (caught and logged).\<close>

datatype attempt_result =
    is_Returned: Returned json
  | ModelNotFound
  | ApiError int string
  | Raised error

definition attempt :: "'p library \<Rightarrow> rat \<Rightarrow> 'p \<Rightarrow> string \<Rightarrow> attempt_result" where
  "attempt lib temperature prompt model_name =
     (case requests_post lib \<lparr>p_model = model_name, p_prompt = prompt, p_max_tokens = 512,
                               p_temperature = temperature\<rparr> of
        Inl e \<Rightarrow> Raised e
      | Inr response \<Rightarrow>
          if status_code response = 200 then
            (case and_then (json_loads lib (response_text response)) (\<lambda>response_data.
                  and_then (response_content lib response_data) (\<lambda>content.
                  and_then (extract_json_of (json_loads lib) content) (\<lambda>json_str.
                  json_loads lib json_str))) of
               Inl e \<Rightarrow> Raised e
             | Inr v \<Rightarrow> Returned v)
          else if status_code response = 404 \<and> contains ''Model not found'' (response_text response)
          then ModelNotFound
          else ApiError (status_code response) (response_text response))"

text \<open>The loop. The result is paired with the models that were sent a request, in order.
  \<open>message\<close> is the text of the exception raised after the last model.\<close>

fun try_models ::
  "'p library \<Rightarrow> rat \<Rightarrow> string \<Rightarrow> 'p \<Rightarrow> string list \<Rightarrow> string list \<times> (error + json)" where
  "try_models lib temperature message prompt [] = ([], Inl (Exception message))"
| "try_models lib temperature message prompt (model_name # rest) =
     (case attempt lib temperature prompt model_name of
        Returned v \<Rightarrow> ([model_name], Inr v)
      | _ \<Rightarrow> (case try_models lib temperature message prompt rest of
                 (tried, r) \<Rightarrow> (model_name # tried, r)))"

definition all_models :: "string list" where
  "all_models = [SAMBANOVA_MODEL_NAME] @ ALTERNATIVE_MODELS"

text \<open>\<open>QuestionGenerator._make_api_request\<close> (temperature 0.7) and
  \<open>Evaluator._make_api_request\<close> (temperature 0.3).\<close>

definition generator_make_api_request ::
  "'p library \<Rightarrow> 'p \<Rightarrow> string list \<times> (error + json)" where
  "generator_make_api_request lib prompt =
     try_models lib (7 / 10) ''All models failed to generate a question'' prompt all_models"

definition evaluator_make_api_request ::
  "'p library \<Rightarrow> 'p \<Rightarrow> string list \<times> (error + json)" where
  "evaluator_make_api_request lib prompt =
     try_models lib (3 / 10) ''All models failed to evaluate the answer'' prompt all_models"

section \<open>Question generation: \<open>QuestionGenerator.generate_question\<close>\<close>

text \<open>A prompt is an f-string with the skill and the level filled in. The program only
  sends it, so it is modelled by the template and the two values.\<close>

datatype question_prompt =
    TextQuestionPrompt string string
  | AudioQuestionPrompt string string
  | ImageQuestionPrompt string string

definition create_text_question_prompt :: "string \<Rightarrow> string \<Rightarrow> question_prompt" where
  "create_text_question_prompt skill level = TextQuestionPrompt skill level"

text \<open>The table \<open>fallback_questions\<close> of \<open>_generate_fallback_question\<close>. A dictionary is
  the list of its items.\<close>

definition fallback_questions :: "string \<Rightarrow> (string \<times> (string \<times> json) list) list" where
  "fallback_questions skill =
     [(''Beginner'',
        [(''question'', JStr (''Explain the core concepts of '' @ skill @
            '' at a beginner level. What are the fundamental ideas someone new to '' @ skill @
            '' should understand?'')),
         (''expected_answer'', JStr (''A good answer should cover the basic principles of '' @
            skill @ '', define key terminology, and explain foundational concepts without advanced jargon. The answer should be accessible to someone with no prior knowledge of '' @
            skill @ ''.''))]),
      (''Intermediate'',
        [(''question'', JStr (''Describe the practical applications of '' @ skill @
            '' at an intermediate level. How would you implement '' @ skill @
            '' techniques in real-world scenarios?'')),
         (''expected_answer'', JStr (''A good answer should demonstrate clear understanding of '' @
            skill @ '' concepts, explain how to apply them in practice, include examples of common use cases, and show awareness of limitations or challenges when implementing '' @
            skill @ ''.''))]),
      (''Advanced'',
        [(''question'', JStr (''Analyze how '' @ skill @
            '' has evolved over time and discuss current cutting-edge developments. What advanced techniques distinguish expert practitioners in this field?'')),
         (''expected_answer'', JStr (''A comprehensive answer should demonstrate deep knowledge of '' @
            skill @ '', including its historical development, current state-of-the-art techniques, ability to critically evaluate different approaches, and awareness of ongoing research or innovations in the field.''))])]"

text \<open>The level is looked up in the table, \<open>Intermediate\<close> when it is not a key.\<close>

definition generate_fallback_question :: "string \<Rightarrow> string \<Rightarrow> error + (string \<times> json) list" where
  "generate_fallback_question skill level =
     (let level_key = (if level \<in> set (map fst (fallback_questions skill)) then level
                       else ''Intermediate'')
      in case map_of (fallback_questions skill) level_key of
           Some entry \<Rightarrow> Inr entry
         | None \<Rightarrow> Inl KeyError)"

text \<open>\<open>isinstance(v, dict) and all(k in v for k in keys)\<close>.\<close>

definition is_dict_with :: "string list \<Rightarrow> json \<Rightarrow> bool" where
  "is_dict_with keys v =
     (case v of JObj items \<Rightarrow> list_all (\<lambda>k. k \<in> set (map fst items)) keys | _ \<Rightarrow> False)"

text \<open>The three generators. The \<open>try\<close> block gives the question built from the answer
  of the API, or nothing when the answer lacks a key; an exception in it is caught.
  The code after it builds the question from the fallback table. A question is a
  dictionary; \<open>None\<close> is \<open>JNull\<close>.\<close>

definition generate_text_question ::
  "question_prompt library \<Rightarrow> string \<Rightarrow> string \<Rightarrow> error + (string \<times> json) list" where
  "generate_text_question lib skill level =
     (let prompt = create_text_question_prompt skill level;
          attempted =
            and_then (snd (generator_make_api_request lib prompt)) (\<lambda>question_data.
              if is_dict_with [''question'', ''expected_answer''] question_data then
                and_then (subscript question_data ''question'') (\<lambda>q.
                and_then (subscript question_data ''expected_answer'') (\<lambda>e.
                  Inr (Some [(''question_type'', JStr ''Text''), (''question_content'', q),
                             (''expected_answer'', e), (''media_path'', JNull)])))
              else Inr None)
      in case attempted of
           Inr (Some result) \<Rightarrow> Inr result
         | _ \<Rightarrow>
             and_then (generate_fallback_question skill level) (\<lambda>fallback.
             and_then (getitem fallback ''question'') (\<lambda>q.
             and_then (getitem fallback ''expected_answer'') (\<lambda>e.
               Inr [(''question_type'', JStr ''Text''), (''question_content'', q),
                    (''expected_answer'', e), (''media_path'', JNull)]))))"

definition generate_audio_question ::
  "question_prompt library \<Rightarrow> string \<Rightarrow> string \<Rightarrow> error + (string \<times> json) list" where
  "generate_audio_question lib skill level =
     (let prompt = AudioQuestionPrompt skill level;
          attempted =
            and_then (snd (generator_make_api_request lib prompt)) (\<lambda>response_data.
              if is_dict_with [''audio_scenario'', ''question'', ''expected_answer''] response_data then
                and_then (subscript response_data ''audio_scenario'') (\<lambda>a.
                and_then (subscript response_data ''question'') (\<lambda>q.
                and_then (subscript response_data ''expected_answer'') (\<lambda>e.
                  Inr (Some [(''question_type'', JStr ''Audio''),
                             (''question_content'', JStr (''Audio Scenario: '' @ py_str lib a @
                                [CHR 0x0A, CHR 0x0A] @ ''Question: '' @ py_str lib q)),
                             (''expected_answer'', e), (''media_path'', JNull)]))))
              else Inr None)
      in case attempted of
           Inr (Some result) \<Rightarrow> Inr result
         | _ \<Rightarrow>
             and_then (generate_fallback_question skill level) (\<lambda>fallback.
             (let scenario = ''Imagine you are listening to a conversation about '' @ skill @
                    ''. The speakers are discussing key aspects and challenges.''
              in and_then (getitem fallback ''question'') (\<lambda>q.
                 and_then (getitem fallback ''expected_answer'') (\<lambda>e.
                   Inr [(''question_type'', JStr ''Audio''),
                        (''question_content'', JStr (''Audio Scenario: '' @ scenario @
                           [CHR 0x0A, CHR 0x0A] @ ''Question: '' @ py_str lib q)),
                        (''expected_answer'', e), (''media_path'', JNull)])))))"

definition generate_image_question ::
  "question_prompt library \<Rightarrow> string \<Rightarrow> string \<Rightarrow> error + (string \<times> json) list" where
  "generate_image_question lib skill level =
     (let prompt = ImageQuestionPrompt skill level;
          attempted =
            and_then (snd (generator_make_api_request lib prompt)) (\<lambda>response_data.
              if is_dict_with [''image_description'', ''question'', ''expected_answer''] response_data then
                and_then (subscript response_data ''question'') (\<lambda>q.
                (let full_question = ''Look at the image and answer the following question:'' @
                       [CHR 0x0A, CHR 0x0A] @ py_str lib q
                 in and_then (subscript response_data ''expected_answer'') (\<lambda>e.
                    and_then (subscript response_data ''image_description'') (\<lambda>d.
                      Inr (Some [(''question_type'', JStr ''Image''),
                                 (''question_content'', JStr full_question),
                                 (''expected_answer'', e), (''image_description'', d),
                                 (''media_path'', JNull)])))))
              else Inr None)
      in case attempted of
           Inr (Some result) \<Rightarrow> Inr result
         | _ \<Rightarrow>
             and_then (generate_fallback_question skill level) (\<lambda>fallback.
             (let image_desc = ''A professional workplace scene showing people demonstrating '' @
                    skill @ '' in different ways.''
              in and_then (getitem fallback ''question'') (\<lambda>q.
                 and_then (getitem fallback ''expected_answer'') (\<lambda>e.
                   Inr [(''question_type'', JStr ''Image''),
                        (''question_content'', JStr (''Look at the image and answer: '' @ py_str lib q)),
                        (''expected_answer'', e), (''image_description'', JStr image_desc),
                        (''media_path'', JNull)])))))"

text \<open>For a question type that is not supported, the entry of the fallback table itself
  is returned.\<close>

definition generate_question ::
  "question_prompt library \<Rightarrow> string \<Rightarrow> string \<Rightarrow> string \<Rightarrow> error + (string \<times> json) list" where
  "generate_question lib skill level question_type =
     (if question_type = ''Text'' then generate_text_question lib skill level
      else if question_type = ''Audio'' then generate_audio_question lib skill level
      else if question_type = ''Image'' then generate_image_question lib skill level
      else generate_fallback_question skill level)"

text \<open>Two definitions that follow the words of the specification, not the source, for
  comparison with the source's: the keyword set with the length test after stripping,
  and the explanation with the percentage rounded to the nearest integer.\<close>

definition spec_keyword_set :: "(pystr \<Rightarrow> pystr) \<Rightarrow> pystr \<Rightarrow> pystr set" where
  "spec_keyword_set lower expected_answer =
     set (filter (\<lambda>k. 4 < length k)
       (map (strip_chars punctuation) (py_split (lower expected_answer))))"

definition spec_explanation :: "bool \<Rightarrow> rat \<Rightarrow> pystr" where
  "spec_explanation is_correct match_ratio =
     (let shown = py (show_int (py_round (float_mul match_ratio 100)))
      in if is_correct
         then py ''The answer covers approximately '' @ shown @
                py ''% of the key concepts expected.''
         else py ''The answer is missing several important concepts (only covers about '' @
                shown @ py ''% of expected key points).'')"

section \<open>Example inputs\<close>

text \<open>A text of one word of four characters, the first one the capital I with a dot
  above: \<open>str.lower\<close> makes five characters of it.\<close>

definition dotted_word :: pystr where
  "dotted_word = 304 # py ''abc''"

text \<open>A session with three evaluations, the second one not correct.\<close>

definition example_session :: session where
  "example_session = \<lparr>s_skill = ''Teamwork'', s_level = ''Beginner'', s_start_time = 0,
     s_end_time = None, s_questions = [], s_current_question_index = - 1, s_answers = [],
     s_evaluations = [(True, ''a''), (False, ''b''), (True, ''c'')], s_score = 0\<rparr>"

text \<open>A media environment where the transcription service and the image file are not
  available.\<close>

definition no_media :: media_env where
  "no_media = \<lparr>transcribe_with_sambanova = (\<lambda>p. None), process_image_for_ai = (\<lambda>p. None)\<rparr>"

text \<open>\<open>json.loads\<close> on the texts that the example with a fence inside a JSON text
  consults: the object with the member \<open>a\<close> parses, and the two fragments that the
  extraction cuts out of it (the text up to the inner fence and the text after it) are
  not JSON.\<close>

definition loads_fence_example :: "string \<Rightarrow> error + json" where
  \<open>loads_fence_example t =
     (if t = ''{"a": "```"}'' then Inr (JObj [(''a'', JStr ''```'')]) else Inl JSONDecodeError)\<close>

text \<open>The JSON text of a text: in quotes, with a backslash before each quote and each
  backslash.\<close>

definition json_quote :: "string \<Rightarrow> string" where
  "json_quote s = [CHR 0x22] @
     concat (map (\<lambda>c. if c = CHR 0x22 \<or> c = CHR 0x5C then [CHR 0x5C, c] else [c]) s) @ [CHR 0x22]"

text \<open>A network where the primary model is not found and every other model answers 200
  with a verdict inside a \<open>json\<close> fence in the member \<open>text\<close>; \<open>json.loads\<close> on the two
  texts that are parsed then.\<close>

definition lib_fallback_example :: "'p library" where
  \<open>lib_fallback_example = \<lparr>
     requests_post = (\<lambda>payload.
       if p_model payload = ''sambanova-llm''
       then Inr (Response 404 ''{"error": "Model not found"}'')
       else Inr (Response 200 (''{"text": '' @
              json_quote (''```json '' @ ''{"is_correct": true, "explanation": "Good"}'' @ '' ```'') @ ''}''))),
     json_loads = (\<lambda>t.
       if t = ''{"text": '' @
              json_quote (''```json '' @ ''{"is_correct": true, "explanation": "Good"}'' @ '' ```'') @ ''}''
       then Inr (JObj [(''text'',
              JStr (''```json '' @ ''{"is_correct": true, "explanation": "Good"}'' @ '' ```''))])
       else if t = ''{"is_correct": true, "explanation": "Good"}''
       then Inr (JObj [(''is_correct'', JBool True), (''explanation'', JStr ''Good'')])
       else Inl JSONDecodeError),
     py_repr = (\<lambda>v. [])\<rparr>\<close>

text \<open>A network where the primary model answers 200 with the JSON list \<open>[1]\<close> in the
  member \<open>text\<close> and every other model answers 200 with a verdict, a JSON object;
  \<open>json.loads\<close> on the four texts.\<close>

definition lib_array_example :: "'p library" where
  \<open>lib_array_example = \<lparr>
     requests_post = (\<lambda>payload.
       if p_model payload = ''sambanova-llm''
       then Inr (Response 200 ''{"text": "[1]"}'')
       else Inr (Response 200 (''{"text": '' @
              json_quote ''{"is_correct": true, "explanation": "Good"}'' @ ''}''))),
     json_loads = (\<lambda>t.
       if t = ''{"text": "[1]"}'' then Inr (JObj [(''text'', JStr ''[1]'')])
       else if t = ''[1]'' then Inr (JArr [JInt 1])
       else if t = ''{"text": '' @ json_quote ''{"is_correct": true, "explanation": "Good"}'' @ ''}''
       then Inr (JObj [(''text'', JStr ''{"is_correct": true, "explanation": "Good"}'')])
       else if t = ''{"is_correct": true, "explanation": "Good"}''
       then Inr (JObj [(''is_correct'', JBool True), (''explanation'', JStr ''Good'')])
       else Inl JSONDecodeError),
     py_repr = (\<lambda>v. [])\<rparr>\<close>

text \<open>A network where every request fails.\<close>

definition lib_down_example :: "'p library" where
  "lib_down_example = \<lparr>requests_post = (\<lambda>payload. Inl RequestException),
     json_loads = (\<lambda>t. Inl JSONDecodeError), py_repr = (\<lambda>v. [])\<rparr>"

text \<open>A network where every model answers 200 with a question and an expected answer
  that are both the empty text, and one where the answer to an audio prompt lacks the
  member \<open>expected_answer\<close>; \<open>json.loads\<close> on the two texts that are parsed in each.\<close>

definition lib_empty_example :: "'p library" where
  \<open>lib_empty_example = \<lparr>
     requests_post = (\<lambda>payload.
       Inr (Response 200 (''{"text": '' @ json_quote ''{"question": "", "expected_answer": ""}'' @ ''}''))),
     json_loads = (\<lambda>t.
       if t = ''{"text": '' @ json_quote ''{"question": "", "expected_answer": ""}'' @ ''}''
       then Inr (JObj [(''text'', JStr ''{"question": "", "expected_answer": ""}'')])
       else if t = ''{"question": "", "expected_answer": ""}''
       then Inr (JObj [(''question'', JStr []), (''expected_answer'', JStr [])])
       else Inl JSONDecodeError),
     py_repr = (\<lambda>v. [])\<rparr>\<close>

definition lib_missing_key_example :: "'p library" where
  \<open>lib_missing_key_example = \<lparr>
     requests_post = (\<lambda>payload.
       Inr (Response 200 (''{"text": '' @ json_quote ''{"audio_scenario": "A call", "question": "What next?"}'' @ ''}''))),
     json_loads = (\<lambda>t.
       if t = ''{"text": '' @ json_quote ''{"audio_scenario": "A call", "question": "What next?"}'' @ ''}''
       then Inr (JObj [(''text'', JStr ''{"audio_scenario": "A call", "question": "What next?"}'')])
       else if t = ''{"audio_scenario": "A call", "question": "What next?"}''
       then Inr (JObj [(''audio_scenario'', JStr ''A call''), (''question'', JStr ''What next?'')])
       else Inl JSONDecodeError),
     py_repr = (\<lambda>v. [])\<rparr>\<close>

section \<open>Properties of the arithmetic and of the text methods\<close>

lemma quot_pos:
  assumes "0 < x" "quotient_of x = (p, q)"
  shows "0 < p" "0 < q" "x = of_int p / of_int q"
proof -
  show q: "0 < q" using assms(2) quotient_of_denom_pos by blast
  show x: "x = of_int p / of_int q" using assms(2) quotient_of_div by blast
  show "0 < p" using assms(1) q x by (simp add: zero_less_divide_iff)
qed

lemma bitlen_rat_bounds:
  assumes "0 < (p::int)"
  shows "2 powi (bitlen p - 1) \<le> (of_int p :: rat)" "(of_int p :: rat) < 2 powi (bitlen p)"
proof -
  from bitlen_bounds[OF assms] have a: "2 ^ nat (bitlen p - 1) \<le> p" and b: "p < 2 ^ nat (bitlen p)"
    by auto
  have b1: "1 \<le> bitlen p" using assms by (auto simp: bitlen_alt_def)
  have "(2::rat) powi (bitlen p - 1) = 2 ^ nat (bitlen p - 1)"
    using b1 by (simp add: power_int_def)
  also have "\<dots> = of_int (2 ^ nat (bitlen p - 1))" by simp
  also have "\<dots> \<le> of_int p" using a by (simp only: of_int_le_iff)
  finally show "2 powi (bitlen p - 1) \<le> (of_int p :: rat)" .
  have "(of_int p :: rat) < of_int (2 ^ nat (bitlen p))" using b by (simp only: of_int_less_iff)
  also have "\<dots> = 2 ^ nat (bitlen p)" by simp
  also have "\<dots> = 2 powi (bitlen p)" using b1 by (simp add: power_int_def)
  finally show "(of_int p :: rat) < 2 powi (bitlen p)" .
qed

lemma pow2_diff: "(2::rat) powi (a - b) = 2 powi a / 2 powi b"
  by (rule power_int_diff) simp

lemma ilog2_bounds:
  assumes "0 < x"
  shows "2 powi (ilog2 x) \<le> x" "x < 2 powi (ilog2 x + 1)"
proof -
  obtain p q where pq: "quotient_of x = (p, q)" by (cases "quotient_of x")
  note P = quot_pos[OF assms pq]
  let ?d = "bitlen p - bitlen q"
  have lo: "(2::rat) powi (?d - 1) < x"
  proof -
    have "?d - 1 = (bitlen p - 1) - bitlen q" by simp
    then have "(2::rat) powi (?d - 1) = 2 powi (bitlen p - 1) / 2 powi (bitlen q)"
      by (simp only: pow2_diff)
    also have "\<dots> \<le> of_int p / 2 powi (bitlen q)"
      using bitlen_rat_bounds(1)[OF P(1)] by (simp add: divide_right_mono)
    also have "\<dots> < of_int p / of_int q"
      using bitlen_rat_bounds(2)[OF P(2)] P(1) P(2) by (simp add: divide_strict_left_mono)
    finally show ?thesis using P(3) by simp
  qed
  have hi: "x < (2::rat) powi (?d + 1)"
  proof -
    have "x = of_int p / of_int q" by (rule P(3))
    also have "\<dots> < 2 powi (bitlen p) / of_int q"
      using bitlen_rat_bounds(2)[OF P(1)] P(2) by (simp add: divide_strict_right_mono)
    also have "\<dots> \<le> 2 powi (bitlen p) / 2 powi (bitlen q - 1)"
      using bitlen_rat_bounds(1)[OF P(2)] by (intro frac_le) simp_all
    also have "\<dots> = 2 powi (bitlen p - (bitlen q - 1))"
      by (simp only: pow2_diff)
    also have "bitlen p - (bitlen q - 1) = ?d + 1" by simp
    finally show ?thesis .
  qed
  have e: "ilog2 x = (if 2 powi ?d \<le> x then ?d else ?d - 1)"
    by (simp add: ilog2_def pq Let_def)
  show "2 powi (ilog2 x) \<le> x" using lo by (simp add: e)
  show "x < 2 powi (ilog2 x + 1)" using hi by (auto simp add: e)
qed

lemma rhe_of_int [simp]: "round_half_even (of_int k) = k"
  by (simp add: round_half_even_def)

lemma rhe_floor_bounds: "\<lfloor>r\<rfloor> \<le> round_half_even r" "round_half_even r \<le> \<lfloor>r\<rfloor> + 1"
  by (simp_all add: round_half_even_def Let_def)

lemma rhe_mono:
  assumes "r \<le> s"
  shows "round_half_even r \<le> round_half_even s"
proof (cases "\<lfloor>r\<rfloor> = \<lfloor>s\<rfloor>")
  case True
  then show ?thesis using assms by (auto simp add: round_half_even_def Let_def)
next
  case False
  then have "\<lfloor>r\<rfloor> < \<lfloor>s\<rfloor>" using assms floor_mono[of r s] by linarith
  then have "\<lfloor>r\<rfloor> + 1 \<le> \<lfloor>s\<rfloor>" by simp
  then show ?thesis using rhe_floor_bounds(2)[of r] rhe_floor_bounds(1)[of s] by linarith
qed

lemma pow2_pos [simp]: "0 < (2::rat) powi k"
  by (simp add: zero_less_power_int)

lemma fl_pos_eq:
  assumes "0 < x"
  shows "fl x = of_int (round_half_even (x / 2 powi (ilog2 x - 52))) * 2 powi (ilog2 x - 52)"
  using assms by (simp add: fl_def Let_def)

lemma pow2_add: "(2::rat) powi (a + b) = 2 powi a * 2 powi b"
  by (rule power_int_add) simp

lemma scaled_bounds:
  assumes "0 < x"
  shows "2 powi 52 \<le> x / 2 powi (ilog2 x - 52)" "x / 2 powi (ilog2 x - 52) < 2 powi 53"
proof -
  let ?e = "ilog2 x"
  let ?u = "(2::rat) powi (?e - 52)"
  have a: "2 powi ?e / ?u \<le> x / ?u"
    using ilog2_bounds(1)[OF assms] by (intro divide_right_mono) (simp_all add: less_imp_le)
  have b: "x / ?u < 2 powi (?e + 1) / ?u"
    using ilog2_bounds(2)[OF assms] by (intro divide_strict_right_mono) simp_all
  have c: "2 powi ?e / ?u = 2 powi (?e - (?e - 52))"
    by (simp only: pow2_diff)
  have d: "2 powi (?e + 1) / ?u = 2 powi (?e + 1 - (?e - 52))"
    by (simp only: pow2_diff)
  have e: "?e - (?e - 52) = 52" "?e + 1 - (?e - 52) = 53" by simp_all
  show "2 powi 52 \<le> x / ?u" using a by (simp only: c e)
  show "x / ?u < 2 powi 53" using b by (simp only: d e)
qed

lemma fl_pos_bounds:
  assumes "0 < x"
  shows "2 powi (ilog2 x) \<le> fl x" "fl x \<le> 2 powi (ilog2 x + 1)"
proof -
  let ?u = "(2::rat) powi (ilog2 x - 52)"
  let ?n = "round_half_even (x / ?u)"
  obtain K :: int where K: "(2::rat) powi 52 = of_int K"
    by (metis of_int_numeral of_int_power power_int_numeral)
  obtain L :: int where L: "(2::rat) powi 53 = of_int L"
    by (metis of_int_numeral of_int_power power_int_numeral)
  have "round_half_even (of_int K) \<le> ?n"
    using scaled_bounds(1)[OF assms] by (intro rhe_mono) (simp only: K)
  then have lo: "(of_int K :: rat) \<le> of_int ?n" by (simp only: rhe_of_int of_int_le_iff)
  have "?n \<le> round_half_even (of_int L)"
    using scaled_bounds(2)[OF assms] by (intro rhe_mono) (simp only: L less_imp_le)
  then have hi: "(of_int ?n :: rat) \<le> of_int L" by (simp only: rhe_of_int of_int_le_iff)
  have "ilog2 x = 52 + (ilog2 x - 52)" by simp
  then have "(2::rat) powi (ilog2 x) = 2 powi (52 + (ilog2 x - 52))" by (rule arg_cong)
  then have e1: "(2::rat) powi (ilog2 x) = of_int K * ?u" by (simp only: pow2_add K)
  have "ilog2 x + 1 = 53 + (ilog2 x - 52)" by simp
  then have "(2::rat) powi (ilog2 x + 1) = 2 powi (53 + (ilog2 x - 52))" by (rule arg_cong)
  then have e2: "(2::rat) powi (ilog2 x + 1) = of_int L * ?u" by (simp only: pow2_add L)
  have u: "0 \<le> ?u" by (simp add: less_imp_le)
  have "of_int K * ?u \<le> of_int ?n * ?u" using lo u by (rule mult_right_mono)
  then show "2 powi (ilog2 x) \<le> fl x" by (simp only: e1 fl_pos_eq[OF assms])
  have "of_int ?n * ?u \<le> of_int L * ?u" using hi u by (rule mult_right_mono)
  then show "fl x \<le> 2 powi (ilog2 x + 1)" by (simp only: e2 fl_pos_eq[OF assms])
qed

lemma ilog2_mono:
  assumes "0 < x" "x \<le> y"
  shows "ilog2 x \<le> ilog2 y"
proof (rule ccontr)
  assume "\<not> ilog2 x \<le> ilog2 y"
  then have "ilog2 y + 1 \<le> ilog2 x" by simp
  then have "(2::rat) powi (ilog2 y + 1) \<le> 2 powi (ilog2 x)"
    by (intro power_int_increasing) simp_all
  moreover have "0 < y" using assms by simp
  ultimately show False
    using ilog2_bounds(1)[OF assms(1)] ilog2_bounds(2)[of y] assms(2) by linarith
qed

lemma fl_mono_pos:
  assumes "0 < x" "x \<le> y"
  shows "fl x \<le> fl y"
proof -
  have y: "0 < y" using assms by simp
  show ?thesis
  proof (cases "ilog2 x = ilog2 y")
    case True
    let ?u = "(2::rat) powi (ilog2 y - 52)"
    have "x / ?u \<le> y / ?u" using assms(2) by (simp add: divide_right_mono)
    then have "round_half_even (x / ?u) \<le> round_half_even (y / ?u)" by (rule rhe_mono)
    then have "(of_int (round_half_even (x / ?u)) :: rat) * ?u \<le> of_int (round_half_even (y / ?u)) * ?u"
      by (intro mult_right_mono) simp_all
    then show ?thesis by (simp only: fl_pos_eq[OF assms(1)] fl_pos_eq[OF y] True)
  next
    case False
    then have "ilog2 x + 1 \<le> ilog2 y" using ilog2_mono[OF assms] by simp
    then have "(2::rat) powi (ilog2 x + 1) \<le> 2 powi (ilog2 y)"
      by (intro power_int_increasing) simp_all
    then show ?thesis using fl_pos_bounds(2)[OF assms(1)] fl_pos_bounds(1)[OF y] by linarith
  qed
qed

lemma fl_zero [simp]: "fl 0 = 0"
  by (simp add: fl_def)

lemma fl_nonneg: "0 \<le> x \<Longrightarrow> 0 \<le> fl x"
proof (cases "x = 0")
  case True then show ?thesis by simp
next
  case False
  assume "0 \<le> x"
  with False have x: "0 < x" by simp
  have "0 < (2::rat) powi (ilog2 x)" by simp
  then show ?thesis using fl_pos_bounds(1)[OF x] by linarith
qed

lemma fl_mono: "0 \<le> x \<Longrightarrow> x \<le> y \<Longrightarrow> fl x \<le> fl y"
  by (cases "x = 0") (auto simp: fl_nonneg intro: fl_mono_pos)

lemma fl_one: "fl 1 = 1" by code_simp
lemma fl_hundred: "fl 100 = 100" by code_simp
lemma fl_half: "fl (1/2) = 1/2" by code_simp

section \<open>Properties of the heuristic grader\<close>

lemma set_expected_keywords:
  "set (expected_keywords lower e) =
     strip_chars punctuation ` {w \<in> set (py_split (lower e)). 4 < length w}"
  by (auto simp: expected_keywords_def)

lemma expected_keywords_short:
  assumes "\<forall>w \<in> set (py_split (lower e)). length w \<le> 4"
  shows "expected_keywords lower e = []"
proof -
  have "filter (\<lambda>word. 4 < length word) (py_split (lower e)) = []"
    using assms by (auto simp: filter_empty_conv)
  then show ?thesis by (simp add: expected_keywords_def)
qed

lemma count_matching_eq:
  "count_matching ks st n = n + length (filter (\<lambda>k. contains k st) ks)"
  by (induction ks arbitrary: n) auto

lemma distinct_expected_keywords: "distinct (expected_keywords lower e)"
  by (simp add: expected_keywords_def)

lemma matching_keywords_card:
  "matching_keywords lower s e =
     card {k \<in> set (expected_keywords lower e). contains k (lower s)}"
proof -
  have "matching_keywords lower s e =
      length (filter (\<lambda>k. contains k (lower s)) (expected_keywords lower e))"
    by (simp add: matching_keywords_def count_matching_eq)
  also have "\<dots> = card (set (filter (\<lambda>k. contains k (lower s)) (expected_keywords lower e)))"
    by (intro distinct_card[symmetric] distinct_filter distinct_expected_keywords)
  finally show ?thesis by simp
qed

lemma length_expected_keywords_card:
  "length (expected_keywords lower e) = card (set (expected_keywords lower e))"
  by (simp add: distinct_card distinct_expected_keywords)

lemma matching_le: "matching_keywords lower s e \<le> length (expected_keywords lower e)"
  by (simp add: matching_keywords_def count_matching_eq)

lemma true_div_bounds:
  assumes "m \<le> n" "0 < n"
  shows "0 \<le> true_div m n" "true_div m n \<le> 1"
proof -
  have a: "(0::rat) \<le> of_nat m / of_nat n" by simp
  have b: "(of_nat m :: rat) / of_nat n \<le> 1" using assms by (simp add: divide_le_eq)
  show "0 \<le> true_div m n" unfolding true_div_def using a by (rule fl_nonneg)
  have "fl (of_nat m / of_nat n) \<le> fl 1" using a b by (rule fl_mono)
  then show "true_div m n \<le> 1" by (simp add: true_div_def fl_one)
qed

lemma match_percentage_bounds:
  "0 \<le> match_percentage lower s e" "match_percentage lower s e \<le> 1"
  using true_div_bounds[OF matching_le[of lower s e]]
  by (auto simp: match_percentage_def)

lemma float_mul_100_bounds:
  assumes "0 \<le> p" "p \<le> 1"
  shows "0 \<le> float_mul p 100" "float_mul p 100 \<le> 100"
proof -
  have a: "0 \<le> p * 100" using assms by simp
  have b: "p * 100 \<le> 100" using assms by simp
  show "0 \<le> float_mul p 100" unfolding float_mul_def using a by (rule fl_nonneg)
  have "fl (p * 100) \<le> fl 100" using a b by (rule fl_mono)
  then show "float_mul p 100 \<le> 100" by (simp add: float_mul_def fl_hundred)
qed

lemma percent_shown_bounds:
  "0 \<le> percent_shown lower s e" "percent_shown lower s e \<le> 100"
proof -
  note B = float_mul_100_bounds[OF match_percentage_bounds[of lower s e]]
  show "0 \<le> percent_shown lower s e"
    using B(1) by (simp add: percent_shown_def int_of_float_def)
  have "\<lfloor>float_mul (match_percentage lower s e) 100\<rfloor> \<le> \<lfloor>100::rat\<rfloor>"
    using B(2) by (rule floor_mono)
  then show "percent_shown lower s e \<le> 100"
    using B(1) by (simp add: percent_shown_def int_of_float_def)
qed

lemma fst_fallback:
  "fst (fallback_evaluation lower s e) = (1 / 2 \<le> match_percentage lower s e)"
  by (simp add: fallback_evaluation_def Let_def)

lemma snd_fallback:
  "snd (fallback_evaluation lower s e) =
     (if fst (fallback_evaluation lower s e)
      then py ''The answer covers approximately '' @ py (show_int (percent_shown lower s e)) @
             py ''% of the key concepts expected.''
      else py ''The answer is missing several important concepts (only covers about '' @
             py (show_int (percent_shown lower s e)) @ py ''% of expected key points).'')"
  by (simp add: fallback_evaluation_def Let_def)

lemma trunc_le_round:
  assumes "0 \<le> x"
  shows "int_of_float x \<le> py_round x" "py_round x \<le> int_of_float x + 1"
  using assms rhe_floor_bounds[of x] by (simp_all add: int_of_float_def py_round_def)

lemma match_percentage_explicit:
  "match_percentage lower s e =
     (if set (expected_keywords lower e) = {} then 0
      else fl (of_nat (card {k \<in> set (expected_keywords lower e). contains k (lower s)})
             / of_nat (card (set (expected_keywords lower e)))))"
  by (simp add: match_percentage_def matching_keywords_card[symmetric]
      length_expected_keywords_card[symmetric] true_div_def)

section \<open>The claims about the heuristic grader\<close>

text \<open>Claim C3, as stated, fails: \<open>str.lower\<close> makes five characters of the four of the
  word \<open>dotted_word\<close>, and the length is tested on the lowercased word. An expected answer
  with this one word has a keyword, and a student answer with the same word gets the
  ratio 1 and a true verdict.\<close>

theorem short_words_counterexample:
  "py_split dotted_word = [dotted_word]
   \<and> length dotted_word = 4
   \<and> lower_small dotted_word = [105, 775, 97, 98, 99]
   \<and> match_percentage lower_small dotted_word dotted_word = 1
   \<and> fst (fallback_evaluation lower_small dotted_word dotted_word)"
  by code_simp

text \<open>Claim C3, amended. For every expected answer \<open>e\<close> and student answer \<open>s\<close>, and
  whatever \<open>str.lower\<close> does, the match ratio is the double precision quotient of the
  number of expected keywords that occur in the lowercased student answer by the size of
  the expected keyword set (the stripped words of more than 4 characters of the
  lowercased expected answer), and 0 when that set is empty; the verdict is
  \<open>match ratio \<ge> 0.5\<close>; and when every word of the lowercased expected answer has at most
  4 characters, the ratio is 0 and the verdict is false.\<close>

theorem fallback_match_ratio_verdict:
  "match_percentage lower s e =
     (if strip_chars punctuation ` {w \<in> set (py_split (lower e)). 4 < length w} = {} then 0
      else fl (of_nat (card {k \<in> strip_chars punctuation `
                                {w \<in> set (py_split (lower e)). 4 < length w}.
                              contains k (lower s)})
             / of_nat (card (strip_chars punctuation `
                               {w \<in> set (py_split (lower e)). 4 < length w}))))
   \<and> fst (fallback_evaluation lower s e) = (1 / 2 \<le> match_percentage lower s e)
   \<and> ((\<forall>w \<in> set (py_split (lower e)). length w \<le> 4) \<longrightarrow>
        match_percentage lower s e = 0 \<and> \<not> fst (fallback_evaluation lower s e))"
proof (intro conjI impI)
  show "match_percentage lower s e =
     (if strip_chars punctuation ` {w \<in> set (py_split (lower e)). 4 < length w} = {} then 0
      else fl (of_nat (card {k \<in> strip_chars punctuation `
                                {w \<in> set (py_split (lower e)). 4 < length w}.
                              contains k (lower s)})
             / of_nat (card (strip_chars punctuation `
                               {w \<in> set (py_split (lower e)). 4 < length w}))))"
    unfolding set_expected_keywords[symmetric] by (rule match_percentage_explicit)
  show "fst (fallback_evaluation lower s e) = (1 / 2 \<le> match_percentage lower s e)"
    by (rule fst_fallback)
next
  assume short: "\<forall>w \<in> set (py_split (lower e)). length w \<le> 4"
  then have "expected_keywords lower e = []" by (rule expected_keywords_short)
  then show zero: "match_percentage lower s e = 0" by (simp add: match_percentage_def)
  then show "\<not> fst (fallback_evaluation lower s e)" by (simp add: fst_fallback)
qed

text \<open>Three instances of C3: an expected answer with short words only (the hypothesis of
  the last part holds and the ratio is 0), one of two keywords matched (the ratio is
  exactly one half and the verdict is true), and one of three keywords matched (the
  ratio is the double nearest to one third and the verdict is false).\<close>

theorem fallback_match_ratio_verdict_witness:
  "py_split (lower_small (py ''Stay calm and be kind'')) =
     [py ''stay'', py ''calm'', py ''and'', py ''be'', py ''kind'']
   \<and> match_percentage lower_small (py ''I stay calm'') (py ''Stay calm and be kind'') = 0
   \<and> \<not> fst (fallback_evaluation lower_small (py ''I stay calm'') (py ''Stay calm and be kind''))
   \<and> match_percentage lower_small (py ''alpha'') (py ''Alpha, bravo'') = 1 / 2
   \<and> fst (fallback_evaluation lower_small (py ''alpha'') (py ''Alpha, bravo''))
   \<and> match_percentage lower_small (py ''alpha'') (py ''alpha bravo charlie'')
       = 6004799503160661 / 18014398509481984
   \<and> \<not> fst (fallback_evaluation lower_small (py ''alpha'') (py ''alpha bravo charlie''))"
proof -
  have sp: "py_split (lower_small (py ''Stay calm and be kind'')) =
     [py ''stay'', py ''calm'', py ''and'', py ''be'', py ''kind'']"
    by code_simp
  have len: "length (py ''stay'') = 4" "length (py ''calm'') = 4" "length (py ''and'') = 3"
    "length (py ''be'') = 2" "length (py ''kind'') = 4"
    by (simp_all add: py_def)
  have short: "\<forall>w \<in> set (py_split (lower_small (py ''Stay calm and be kind''))). length w \<le> 4"
    unfolding sp using len by simp
  note T1 = fallback_match_ratio_verdict[of lower_small "py ''I stay calm''"
      "py ''Stay calm and be kind''"]
  from T1 short have a: "match_percentage lower_small (py ''I stay calm'') (py ''Stay calm and be kind'') = 0
    \<and> \<not> fst (fallback_evaluation lower_small (py ''I stay calm'') (py ''Stay calm and be kind''))"
    by (elim conjE) (rule mp)
  have half: "match_percentage lower_small (py ''alpha'') (py ''Alpha, bravo'') = 1 / 2"
    by code_simp
  note T2 = fallback_match_ratio_verdict[of lower_small "py ''alpha''" "py ''Alpha, bravo''"]
  from T2 half have b: "fst (fallback_evaluation lower_small (py ''alpha'') (py ''Alpha, bravo''))"
    by simp
  have third: "match_percentage lower_small (py ''alpha'') (py ''alpha bravo charlie'')
       = 6004799503160661 / 18014398509481984"
    by code_simp
  note T3 = fallback_match_ratio_verdict[of lower_small "py ''alpha''" "py ''alpha bravo charlie''"]
  from T3 third have c: "\<not> fst (fallback_evaluation lower_small (py ''alpha'') (py ''alpha bravo charlie''))"
    by simp
  from sp a half b third c show ?thesis by (intro conjI) simp_all
qed

text \<open>Claim C4, as stated, fails: the source tests the length of a word before it strips
  the word, so the one word \<open>(ab),\<close> of 5 characters gives the keyword \<open>ab\<close>, while the set
  of the stripped words longer than 4 characters is empty.\<close>

theorem keyword_set_counterexample:
  "set (expected_keywords lower_small (py ''(ab),'')) = {py ''ab''}
   \<and> spec_keyword_set lower_small (py ''(ab),'') = {}"
proof -
  have "expected_keywords lower_small (py ''(ab),'') = [py ''ab'']" by code_simp
  moreover have "filter (\<lambda>k. 4 < length k)
       (map (strip_chars punctuation) (py_split (lower_small (py ''(ab),'')))) = []" by code_simp
  ultimately show ?thesis by (simp add: spec_keyword_set_def)
qed

text \<open>Claim C4, amended. For every expected answer, and whatever \<open>str.lower\<close> does, the
  expected keyword set consists exactly of the words of the lowercased text (split at
  white space) that themselves have more than 4 characters, each then stripped of the
  punctuation characters at its ends; duplicates collapse.\<close>

theorem expected_keyword_set:
  "set (expected_keywords lower e) =
     strip_chars punctuation ` {w \<in> set (py_split (lower e)). 4 < length w}
   \<and> distinct (expected_keywords lower e)"
  by (auto simp: expected_keywords_def)

text \<open>An instance of C4: brackets, comma and full stop are stripped after the length
  test.\<close>

theorem expected_keyword_set_witness:
  "set (expected_keywords lower_small (py ''Listen (actively), then respond.'')) =
     {py ''listen'', py ''actively'', py ''respond''}"
proof -
  have "{w \<in> set (py_split (lower_small (py ''Listen (actively), then respond.''))). 4 < length w}
     = set (filter (\<lambda>w. 4 < length w)
         (py_split (lower_small (py ''Listen (actively), then respond.''))))"
    by auto
  also have "filter (\<lambda>w. 4 < length w)
       (py_split (lower_small (py ''Listen (actively), then respond.'')))
     = [py ''listen'', py ''(actively),'', py ''respond.'']" by code_simp
  finally have a:
    "{w \<in> set (py_split (lower_small (py ''Listen (actively), then respond.''))). 4 < length w}
     = {py ''listen'', py ''(actively),'', py ''respond.''}" by simp
  have b: "strip_chars punctuation (py ''listen'') = py ''listen''"
     "strip_chars punctuation (py ''(actively),'') = py ''actively''"
     "strip_chars punctuation (py ''respond.'') = py ''respond''" by code_simp+
  show ?thesis
    using expected_keyword_set[of lower_small "py ''Listen (actively), then respond.''"]
    by (simp only: a image_insert image_empty b)
qed

text \<open>Claim C5, as stated, fails: on the two texts of the claim the verdict is false.\<close>

theorem listening_example_counterexample:
  "\<not> fst (fallback_evaluation lower_small (py ''I listened carefully and showed empathy'')
        (py ''Demonstrate active listening and empathy when responding''))"
  by code_simp

text \<open>Claim C5, amended. For the expected text "Demonstrate active listening and empathy
  when responding" and the student text "I listened carefully and showed empathy", the
  expected keywords are demonstrate, active, listening, empathy and responding; only
  empathy occurs in the student text (1 of 5, 20 percent), and the grader returns
  \<open>is_correct = false\<close> with the explanation for 20 percent.\<close>

theorem listening_example:
  "expected_keywords lower_small (py ''Demonstrate active listening and empathy when responding'') =
     [py ''demonstrate'', py ''active'', py ''listening'', py ''empathy'', py ''responding'']
   \<and> matching_keywords lower_small (py ''I listened carefully and showed empathy'')
        (py ''Demonstrate active listening and empathy when responding'') = 1
   \<and> fallback_evaluation lower_small (py ''I listened carefully and showed empathy'')
        (py ''Demonstrate active listening and empathy when responding'') =
      (False, py ''The answer is missing several important concepts (only covers about 20% of expected key points).'')"
  by code_simp

text \<open>Claim C6, as stated, fails: with 2 of 3 keywords matched the explanation reports
  66 percent, the percentage cut off towards zero, where rounding gives 67.\<close>

theorem rounded_percentage_counterexample:
  "snd (fallback_evaluation lower_small (py ''alpha bravo'') (py ''alpha bravo charlie'')) =
     py ''The answer covers approximately 66% of the key concepts expected.''
   \<and> spec_explanation
       (fst (fallback_evaluation lower_small (py ''alpha bravo'') (py ''alpha bravo charlie'')))
       (match_percentage lower_small (py ''alpha bravo'') (py ''alpha bravo charlie'')) =
     py ''The answer covers approximately 67% of the key concepts expected.''"
  by code_simp

text \<open>Claim C6, amended. For every expected answer and student answer, and whatever
  \<open>str.lower\<close> does, the explanation reports the integer percentage
  \<open>int(match_ratio * 100)\<close>, cut off towards zero (the rounded percentage or one less), in
  the sentence "covers approximately X% ..." when the verdict is true and in the sentence
  "missing several important concepts ..." when it is false.\<close>

theorem explanation_truncated_percentage:
  "snd (fallback_evaluation lower s e) =
     (if fst (fallback_evaluation lower s e)
      then py ''The answer covers approximately '' @ py (show_int (percent_shown lower s e)) @
             py ''% of the key concepts expected.''
      else py ''The answer is missing several important concepts (only covers about '' @
             py (show_int (percent_shown lower s e)) @ py ''% of expected key points).'')
   \<and> percent_shown lower s e = \<lfloor>float_mul (match_percentage lower s e) 100\<rfloor>
   \<and> percent_shown lower s e \<le> py_round (float_mul (match_percentage lower s e) 100)
   \<and> py_round (float_mul (match_percentage lower s e) 100) \<le> percent_shown lower s e + 1"
proof -
  note B = float_mul_100_bounds(1)[OF match_percentage_bounds[of lower s e]]
  have "percent_shown lower s e = \<lfloor>float_mul (match_percentage lower s e) 100\<rfloor>"
    using B by (simp add: percent_shown_def int_of_float_def)
  moreover note trunc_le_round[OF B] snd_fallback[of lower s e]
  ultimately show ?thesis by (simp add: percent_shown_def)
qed

text \<open>An instance of C6 with a true verdict.\<close>

theorem explanation_truncated_percentage_witness:
  "snd (fallback_evaluation lower_small (py ''alpha bravo'') (py ''alpha bravo charlie'')) =
     py ''The answer covers approximately '' @
     py (show_int (percent_shown lower_small (py ''alpha bravo'') (py ''alpha bravo charlie''))) @
     py ''% of the key concepts expected.''
   \<and> percent_shown lower_small (py ''alpha bravo'') (py ''alpha bravo charlie'') = 66"
proof -
  have a: "fst (fallback_evaluation lower_small (py ''alpha bravo'') (py ''alpha bravo charlie''))"
    by code_simp
  have b: "percent_shown lower_small (py ''alpha bravo'') (py ''alpha bravo charlie'') = 66"
    by code_simp
  show ?thesis
    using explanation_truncated_percentage[of lower_small "py ''alpha bravo''"
        "py ''alpha bravo charlie''"] a b
    by simp
qed

text \<open>Claim C10. For every expected answer and student answer, and whatever \<open>str.lower\<close>
  does, the number of matching keywords is at most the size of the expected keyword set,
  the match ratio lies between 0 and 1, the integer percentage printed in the explanation
  lies between 0 and 100, and the grader returns a Boolean verdict with an explanation
  that is not empty.\<close>

theorem fallback_evaluation_bounds:
  "matching_keywords lower s e \<le> length (expected_keywords lower e)
   \<and> card {k \<in> set (expected_keywords lower e). contains k (lower s)}
       \<le> card (set (expected_keywords lower e))
   \<and> 0 \<le> match_percentage lower s e \<and> match_percentage lower s e \<le> 1
   \<and> 0 \<le> percent_shown lower s e \<and> percent_shown lower s e \<le> 100
   \<and> (\<exists>pre post. snd (fallback_evaluation lower s e) =
         pre @ py (show_int (percent_shown lower s e)) @ post)
   \<and> snd (fallback_evaluation lower s e) \<noteq> []
   \<and> (fst (fallback_evaluation lower s e) = True \<or> fst (fallback_evaluation lower s e) = False)"
proof -
  have "\<exists>pre post. snd (fallback_evaluation lower s e) =
      pre @ py (show_int (percent_shown lower s e)) @ post"
  proof (cases "fst (fallback_evaluation lower s e)")
    case True
    then have "snd (fallback_evaluation lower s e) = py ''The answer covers approximately '' @
        py (show_int (percent_shown lower s e)) @ py ''% of the key concepts expected.''"
      by (subst snd_fallback) simp
    then show ?thesis by blast
  next
    case False
    then have "snd (fallback_evaluation lower s e) =
        py ''The answer is missing several important concepts (only covers about '' @
        py (show_int (percent_shown lower s e)) @ py ''% of expected key points).''"
      by (subst snd_fallback) simp
    then show ?thesis by blast
  qed
  moreover have "snd (fallback_evaluation lower s e) \<noteq> []"
    unfolding snd_fallback by (simp add: py_def)
  moreover have "card {k \<in> set (expected_keywords lower e). contains k (lower s)}
      \<le> card (set (expected_keywords lower e))"
    using matching_le[of lower s e]
    by (simp only: matching_keywords_card length_expected_keywords_card)
  ultimately show ?thesis
    using matching_le[of lower s e] match_percentage_bounds[of lower s e]
      percent_shown_bounds[of lower s e]
    by blast
qed

text \<open>An instance of C10.\<close>

theorem fallback_evaluation_bounds_witness:
  "matching_keywords lower_small (py ''alpha bravo'') (py ''alpha bravo charlie'') = 2
   \<and> length (expected_keywords lower_small (py ''alpha bravo charlie'')) = 3
   \<and> 0 \<le> percent_shown lower_small (py ''alpha bravo'') (py ''alpha bravo charlie'')
   \<and> percent_shown lower_small (py ''alpha bravo'') (py ''alpha bravo charlie'') \<le> 100"
proof -
  have "matching_keywords lower_small (py ''alpha bravo'') (py ''alpha bravo charlie'') = 2"
    by code_simp
  moreover have "length (expected_keywords lower_small (py ''alpha bravo charlie'')) = 3"
    by code_simp
  ultimately show ?thesis
    using fallback_evaluation_bounds[of lower_small "py ''alpha bravo''"
        "py ''alpha bravo charlie''"] by simp
qed

section \<open>The claim about answer normalisation\<close>

text \<open>Claim C8, as stated, fails: a Text answer passes through unchanged also when it is
  empty or absent, so with no media and no text answer the result is not the placeholder.\<close>

theorem process_answer_counterexample:
  "process_answer no_media (Some []) ''Text'' None = Some []
   \<and> process_answer no_media None ''Text'' None = None
   \<and> process_answer no_media (Some []) ''Text'' None \<noteq> Some ''No answer provided''"
  by (simp add: process_answer_def)

text \<open>Claim C8, amended. A Text answer passes through unchanged; an Audio answer with media
  is replaced by the transcription of the media, labelled "Audio Answer Transcript: "; an
  Image answer with media is replaced by the caption, labelled "Image Answer Description: ";
  and whenever the answer type is not Text and there is no media and no text answer, the
  result is the placeholder "No answer provided".\<close>

theorem process_answer_cases:
  "(answer_type = ''Text'' \<longrightarrow> process_answer env answer answer_type media_path = answer)
   \<and> (answer_type = ''Audio'' \<and> media_path = Some p \<and> p \<noteq> [] \<longrightarrow>
        process_answer env answer answer_type media_path =
          Some (''Audio Answer Transcript: '' @ transcribe_audio env p))
   \<and> (answer_type = ''Image'' \<and> media_path = Some p \<and> p \<noteq> [] \<longrightarrow>
        process_answer env answer answer_type media_path =
          Some (''Image Answer Description: '' @
            ''An image showing a person demonstrating soft skills in a professional environment.''))
   \<and> (answer_type \<noteq> ''Text'' \<and> \<not> truthy media_path \<and> \<not> truthy answer \<longrightarrow>
        process_answer env answer answer_type media_path = Some ''No answer provided'')"
  by (simp add: process_answer_def truthy_def create_image_description_def)

text \<open>One instance of C8 for each of its four parts.\<close>

theorem process_answer_cases_witness:
  "process_answer no_media (Some ''I would listen first'') ''Text'' None = Some ''I would listen first''
   \<and> process_answer no_media None ''Audio'' (Some ''audio/a.wav'') =
       Some (''Audio Answer Transcript: '' @ transcribe_audio no_media ''audio/a.wav'')
   \<and> process_answer no_media None ''Image'' (Some ''images/a.png'') =
       Some (''Image Answer Description: '' @
            ''An image showing a person demonstrating soft skills in a professional environment.'')
   \<and> process_answer no_media None ''Audio'' None = Some ''No answer provided''"
  using process_answer_cases[of "''Text''" no_media "Some ''I would listen first''" None "[]"]
    process_answer_cases[of "''Audio''" no_media None "Some ''audio/a.wav''" "''audio/a.wav''"]
    process_answer_cases[of "''Image''" no_media None "Some ''images/a.png''" "''images/a.png''"]
    process_answer_cases[of "''Audio''" no_media None None "[]"]
  by (simp add: truthy_def)

section \<open>The claim about the session score\<close>

lemma score_two_of_three: "int_of_float (float_mul (true_div 2 3) 100) = 66"
proof -
  have "int_of_float (float_mul (fl (2 / 3)) 100) = 66" by code_simp
  then show ?thesis by (simp add: true_div_def)
qed

lemma end_session_scored:
  assumes "active_sessions st session_id = Some session0"
    and "map fst (s_evaluations session0) = [True, False, True]"
  shows "end_session now session_id st =
     (66, st\<lparr>active_sessions :=
               (active_sessions st)(session_id \<mapsto> session0\<lparr>s_end_time := Some now, s_score := 66\<rparr>),
             db_log := db_log st @ [UpdateSessionEnd 66 session_id]\<rparr>)"
proof -
  from assms(2) have len: "length (s_evaluations session0) = 3"
    by (metis length_map length_Cons list.size(3) numeral_3_eq_3)
  from assms(2) have "filter id (map fst (s_evaluations session0)) = [True, True]" by simp
  then have "length (filter id (map fst (s_evaluations session0))) = 2" by simp
  then have cor: "length (filter fst (s_evaluations session0)) = 2"
    by (simp add: filter_map comp_def)
  have ne: "s_evaluations session0 \<noteq> []" using len by auto
  have sc: "int_of_float (float_mul (true_div (length (filter fst (s_evaluations session0)))
      (length (s_evaluations session0))) 100) = 66"
    by (simp only: len cor score_two_of_three)
  show ?thesis
    by (simp add: end_session_def assms(1) Let_def ne sc)
qed

text \<open>Claim C7, as stated, fails: with two of three evaluations correct the score is not
  67.\<close>

theorem end_session_score_counterexample:
  "fst (end_session 5 ''s1'' \<lparr>active_sessions = [''s1'' \<mapsto> example_session], db_log = []\<rparr>) \<noteq> 67"
proof -
  have "map fst (s_evaluations example_session) = [True, False, True]"
    by (simp add: example_session_def)
  from end_session_scored[OF _ this, of "\<lparr>active_sessions = [''s1'' \<mapsto> example_session], db_log = []\<rparr>" "''s1''" 5]
  show ?thesis by simp
qed

text \<open>Claim C7, amended. Finalising a session whose three evaluations have the verdicts
  true, false, true returns the score 66, the percentage \<open>int((2 / 3) * 100)\<close> cut off
  towards zero, stores it with the end time in the session, and sends it to the
  database.\<close>

theorem end_session_two_of_three:
  assumes "active_sessions st session_id = Some session0"
    and "map fst (s_evaluations session0) = [True, False, True]"
  shows "fst (end_session now session_id st) = 66
    \<and> active_sessions (snd (end_session now session_id st)) session_id =
        Some (session0\<lparr>s_end_time := Some now, s_score := 66\<rparr>)
    \<and> db_log (snd (end_session now session_id st)) = db_log st @ [UpdateSessionEnd 66 session_id]"
  by (simp add: end_session_scored[OF assms])

text \<open>An instance of C7: the example session, finalised at time 5.\<close>

theorem end_session_two_of_three_witness:
  "fst (end_session 5 ''s1'' \<lparr>active_sessions = [''s1'' \<mapsto> example_session], db_log = []\<rparr>) = 66
   \<and> db_log (snd (end_session 5 ''s1'' \<lparr>active_sessions = [''s1'' \<mapsto> example_session], db_log = []\<rparr>))
       = [UpdateSessionEnd 66 ''s1'']"
  using end_session_two_of_three[of "\<lparr>active_sessions = [''s1'' \<mapsto> example_session], db_log = []\<rparr>"
      "''s1''" example_session 5]
  by (simp add: example_session_def)

section \<open>Properties of text search and splitting\<close>

lemma starts_with_iff: "starts_with k s \<longleftrightarrow> (\<exists>r. s = k @ r)"
  by (induction k s rule: starts_with.induct) auto

lemma contains_iff: "contains k s \<longleftrightarrow> (\<exists>a b. s = a @ k @ b)"
proof (induction s)
  case Nil
  then show ?case by simp
next
  case (Cons c cs)
  show ?case
  proof
    assume "contains k (c # cs)"
    then consider "starts_with k (c # cs)" | "contains k cs" by auto
    then show "\<exists>a b. c # cs = a @ k @ b"
    proof cases
      case 1
      then obtain r where "c # cs = k @ r" by (auto simp: starts_with_iff)
      then have "c # cs = [] @ k @ r" by simp
      then show ?thesis by blast
    next
      case 2
      with Cons obtain a b where "cs = a @ k @ b" by auto
      then have "c # cs = (c # a) @ k @ b" by simp
      then show ?thesis by blast
    qed
  next
    assume "\<exists>a b. c # cs = a @ k @ b"
    then obtain a b where ab: "c # cs = a @ k @ b" by auto
    show "contains k (c # cs)"
    proof (cases a)
      case Nil
      with ab have "starts_with k (c # cs)" by (auto simp: starts_with_iff)
      then show ?thesis by simp
    next
      case (Cons d a')
      with ab have "cs = a' @ k @ b" by simp
      with Cons.IH have "contains k cs" by blast
      then show ?thesis by simp
    qed
  qed
qed

lemma split_sep_acc_skip:
  "split_sep_acc sep piece (length t) (t @ r) = split_sep_acc sep piece 0 r"
  by (induction t) auto

lemma split_sep_acc_match:
  assumes "sep \<noteq> []"
  shows "split_sep_acc sep piece 0 (sep @ r) = piece # split_sep_acc sep [] 0 r"
proof -
  from assms obtain c cs where sep: "sep = c # cs" by (cases sep) auto
  have "starts_with sep (c # cs @ r)" by (simp add: starts_with_iff sep)
  then have "split_sep_acc sep piece 0 (c # cs @ r) = piece # split_sep_acc sep [] (length cs) (cs @ r)"
    by (simp add: sep)
  then show ?thesis by (simp add: split_sep_acc_skip sep)
qed

lemma split_sep_acc_no_match:
  assumes "\<forall>i < length a. \<not> starts_with sep (drop i (a @ r))"
  shows "split_sep_acc sep piece 0 (a @ r) = split_sep_acc sep (piece @ a) 0 r"
  using assms
proof (induction a arbitrary: piece)
  case Nil
  then show ?case by simp
next
  case (Cons c cs)
  from Cons.prems have here: "\<not> starts_with sep (c # cs @ r)" by force
  have "\<forall>i < length cs. \<not> starts_with sep (drop i (cs @ r))"
  proof (intro allI impI)
    fix i assume "i < length cs"
    then have "Suc i < length (c # cs)" by simp
    with Cons.prems have "\<not> starts_with sep (drop (Suc i) ((c # cs) @ r))" by blast
    then show "\<not> starts_with sep (drop i (cs @ r))" by simp
  qed
  from Cons.IH[OF this, of "piece @ [c]"] here show ?case by simp
qed

lemma starts_with_drop_contains:
  assumes "starts_with k (drop i s)"
  shows "contains k s"
proof -
  from assms obtain r where "drop i s = k @ r" by (auto simp: starts_with_iff)
  then have "s = take i s @ k @ r" by (metis append_take_drop_id)
  then show ?thesis unfolding contains_iff by blast
qed

lemma split_sep_absent:
  assumes "\<not> contains sep t"
  shows "split_sep_acc sep piece 0 t = [piece @ t]"
proof -
  have "\<forall>i < length t. \<not> starts_with sep (drop i (t @ []))"
    using assms starts_with_drop_contains by auto
  from split_sep_acc_no_match[OF this, of piece] show ?thesis by simp
qed

lemma space_not_brace: "is_space c \<Longrightarrow> c \<noteq> CHR ''{'' \<and> c \<noteq> CHR ''}'' \<and> c \<noteq> CHR 0x60"
  by (auto simp: is_space_def)

lemma not_space_brace [simp]: "\<not> is_space CHR ''{''" "\<not> is_space CHR ''}''"
  by (simp_all add: is_space_def)

lemma py_strip_padded:
  assumes "\<forall>c \<in> set pre. is_space c" "\<forall>c \<in> set post. is_space c"
  shows "py_strip (pre @ CHR ''{'' # mid @ CHR ''}'' # post) = CHR ''{'' # mid @ [CHR ''}'']"
proof -
  have a: "dropWhile is_space (pre @ CHR ''{'' # mid @ CHR ''}'' # post)
      = CHR ''{'' # mid @ CHR ''}'' # post"
    using assms(1) by (simp add: dropWhile_append2)
  have "dropWhile is_space (rev post @ CHR ''}'' # rev mid @ [CHR ''{''])
      = dropWhile is_space (CHR ''}'' # rev mid @ [CHR ''{''])"
    by (rule dropWhile_append2) (use assms(2) in auto)
  then have b: "dropWhile is_space (rev post @ CHR ''}'' # rev mid @ [CHR ''{''])
      = CHR ''}'' # rev mid @ [CHR ''{'']"
    by simp
  show ?thesis unfolding py_strip_def a using b by simp
qed

lemma brace_search_padded:
  assumes "\<forall>c \<in> set pre. is_space c" "\<forall>c \<in> set post. is_space c"
  shows "brace_search (pre @ CHR ''{'' # mid @ CHR ''}'' # post) = Some (CHR ''{'' # mid @ [CHR ''}''])"
proof -
  have p1: "\<And>c. c \<in> set pre \<Longrightarrow> c \<noteq> CHR ''{''" using assms(1) space_not_brace by blast
  have p2: "\<And>c. c \<in> set (rev post) \<Longrightarrow> c \<noteq> CHR ''}''" using assms(2) space_not_brace by auto
  have a: "dropWhile (\<lambda>c. c \<noteq> CHR ''{'') (pre @ CHR ''{'' # mid @ CHR ''}'' # post)
      = CHR ''{'' # mid @ CHR ''}'' # post"
    using p1 by (simp add: dropWhile_append2)
  have "dropWhile (\<lambda>c. c \<noteq> CHR ''}'') (rev post @ CHR ''}'' # rev mid @ [CHR ''{''])
      = dropWhile (\<lambda>c. c \<noteq> CHR ''}'') (CHR ''}'' # rev mid @ [CHR ''{''])"
    by (rule dropWhile_append2) (use p2 in auto)
  then have b: "dropWhile (\<lambda>c. c \<noteq> CHR ''}'') (rev post @ CHR ''}'' # rev mid @ [CHR ''{''])
      = CHR ''}'' # rev mid @ [CHR ''{'']"
    by simp
  show ?thesis unfolding brace_search_def a Let_def using b by simp
qed

lemma last_padded:
  assumes "\<forall>c \<in> set post. is_space c"
  shows "last (pre @ CHR ''{'' # mid @ CHR ''}'' # post) \<noteq> CHR 0x60"
proof (cases "post = []")
  case True
  then show ?thesis by simp
next
  case False
  then have "last post \<in> set post" by simp
  with assms have "is_space (last post)" by blast
  with False show ?thesis using space_not_brace by auto
qed

lemma json_fence_in_fence:
  assumes "contains ''```json'' t"
  shows "contains ''```'' t"
proof -
  from assms obtain a b where "t = a @ ''```json'' @ b" by (auto simp: contains_iff)
  then have "t = a @ ''```'' @ (''json'' @ b)" by simp
  then show ?thesis unfolding contains_iff by blast
qed

lemma no_json_fence_across:
  assumes "\<not> contains ''```'' s"
  shows "\<not> contains ''```json'' (s @ ''```'')"
proof
  assume "contains ''```json'' (s @ ''```'')"
  then obtain a b where ab: "s @ ''```'' = a @ ''```json'' @ b" by (auto simp: contains_iff)
  then have "s @ ''```'' = (a @ ''```'') @ (''json'' @ b)" by simp
  then obtain us where "(s = (a @ ''```'') @ us \<and> us @ ''```'' = ''json'' @ b)
      \<or> (s @ us = a @ ''```'' \<and> ''```'' = us @ ''json'' @ b)"
    unfolding append_eq_append_conv2 by blast
  then show False
  proof
    assume "s = (a @ ''```'') @ us \<and> us @ ''```'' = ''json'' @ b"
    then have "s = a @ ''```'' @ us" by simp
    with assms show False unfolding contains_iff by blast
  next
    assume "s @ us = a @ ''```'' \<and> ''```'' = us @ ''json'' @ b"
    then have "length ''```'' = length (us @ ''json'' @ b)" by simp
    then show False by simp
  qed
qed

lemma no_fence_across:
  assumes "\<not> contains ''```'' s" "s \<noteq> [] \<Longrightarrow> last s \<noteq> CHR 0x60" "i < length s"
  shows "\<not> starts_with ''```'' (drop i (s @ ''```''))"
proof
  assume sw: "starts_with ''```'' (drop i (s @ ''```''))"
  define t where "t = drop i s"
  have t: "t \<noteq> []" "last t = last s" "s = take i s @ t" "s \<noteq> []"
    using assms(3) by (auto simp: t_def)
  from sw have sw': "starts_with ''```'' (t @ ''```'')" using assms(3) by (simp add: t_def)
  have "last t = CHR 0x60 \<or> (\<exists>r. t = ''```'' @ r)"
  proof (cases t)
    case Nil
    with t show ?thesis by simp
  next
    case c1: (Cons c1 t1)
    show ?thesis
    proof (cases t1)
      case Nil
      with c1 sw' show ?thesis by auto
    next
      case c2: (Cons c2 t2)
      show ?thesis
      proof (cases t2)
        case Nil
        with c1 c2 sw' show ?thesis by auto
      next
        case c3: (Cons c3 t3)
        with c1 c2 sw' show ?thesis by auto
      qed
    qed
  qed
  then show False
  proof
    assume "last t = CHR 0x60"
    with t assms(2) show False by simp
  next
    assume "\<exists>r. t = ''```'' @ r"
    then obtain r where "t = ''```'' @ r" by blast
    with t(3) have "s = take i s @ ''```'' @ r" by simp
    with assms(1) show False unfolding contains_iff by blast
  qed
qed

lemma extract_json_fenced:
  assumes "\<not> contains ''```'' s" "s \<noteq> [] \<Longrightarrow> last s \<noteq> CHR 0x60"
    and T: "text = ''```json'' @ s @ ''```''"
  shows "extract_json loads text = Inr (py_strip s)"
proof -
  define rest where "rest = s @ ''```''"
  have text': "text = ''```json'' @ rest" by (simp add: T rest_def)
  have c1: "contains ''```json'' text"
    unfolding contains_iff text' by (rule exI[of _ "[]"]) auto
  then have c2: "contains ''```'' text" by (rule json_fence_in_fence)
  have "split_sep_acc ''```json'' [] 0 (''```json'' @ rest)
      = [] # split_sep_acc ''```json'' [] 0 rest"
    by (rule split_sep_acc_match) simp
  also have "split_sep_acc ''```json'' [] 0 rest = [[] @ rest]"
    unfolding rest_def by (rule split_sep_absent) (rule no_json_fence_across[OF assms(1)])
  finally have s1: "split_sep ''```json'' text = [[], rest]"
    by (simp add: split_sep_def text')
  have "\<forall>i < length s. \<not> starts_with ''```'' (drop i (s @ ''```''))"
    using no_fence_across[OF assms(1,2)] by blast
  then have "split_sep_acc ''```'' [] 0 (s @ ''```'') = split_sep_acc ''```'' ([] @ s) 0 ''```''"
    by (rule split_sep_acc_no_match)
  also have "\<dots> = split_sep_acc ''```'' s 0 (''```'' @ [])" by simp
  also have "\<dots> = s # split_sep_acc ''```'' [] 0 []"
    by (rule split_sep_acc_match) simp
  finally have s2: "split_sep ''```'' rest = [s, []]"
    by (simp add: split_sep_def rest_def)
  show ?thesis
    unfolding extract_json_def
    by (simp add: c1 c2 s1 s2 item_def and_then_def Let_def)
qed

lemma extract_json_bare:
  assumes "\<not> contains ''```'' s"
  shows "extract_json loads s = (case brace_search s of Some m \<Rightarrow> Inr m | None \<Rightarrow> Inr s)"
proof -
  have "\<not> contains ''```json'' s" using assms json_fence_in_fence by blast
  then show ?thesis using assms by (simp add: extract_json_def Let_def)
qed

section \<open>The claim about JSON extraction\<close>

text \<open>Claim C9, as stated, fails: a JSON object may hold three backquotes inside a text
  member. From the fenced text the extraction then returns the piece up to the inner
  fence, which does not parse, while from the bare text it returns the whole object.\<close>

theorem extract_json_fence_counterexample:
  \<open>extract_json loads_fence_example (''```json'' @ ''{"a": "```"}'' @ ''```'') = Inr ''{"a": "''
   \<and> and_then (extract_json loads_fence_example (''```json'' @ ''{"a": "```"}'' @ ''```''))
        loads_fence_example = Inl JSONDecodeError
   \<and> extract_json loads_fence_example ''{"a": "```"}'' = Inr ''{"a": "```"}''
   \<and> and_then (extract_json loads_fence_example ''{"a": "```"}'') loads_fence_example
        = Inr (JObj [(''a'', JStr ''```'')])\<close>
  by code_simp

text \<open>Claim C9, amended. For every serialised JSON object \<open>s\<close> (white space, an opening
  brace, any text, a closing brace, white space) that does not contain three consecutive
  backquotes, extracting JSON from \<open>"```json" + s + "```"\<close> and from the bare \<open>s\<close> both
  yield the text from the opening to the closing brace, so both parse to the same
  result, whatever \<open>json.loads\<close> returns on it.\<close>

theorem extract_json_fenced_same:
  assumes "\<forall>c \<in> set pre. is_space c" and "\<forall>c \<in> set post. is_space c"
    and "s = pre @ [CHR ''{''] @ mid @ [CHR ''}''] @ post"
    and "\<not> contains ''```'' s"
  shows "extract_json loads (''```json'' @ s @ ''```'') = Inr ([CHR ''{''] @ mid @ [CHR ''}''])
    \<and> extract_json loads s = Inr ([CHR ''{''] @ mid @ [CHR ''}''])
    \<and> and_then (extract_json loads (''```json'' @ s @ ''```'')) loads
        = and_then (extract_json loads s) loads"
proof -
  have s: "s = pre @ CHR ''{'' # mid @ CHR ''}'' # post" using assms(3) by simp
  have l: "s \<noteq> [] \<Longrightarrow> last s \<noteq> CHR 0x60"
    unfolding s using last_padded[OF assms(2)] by blast
  have st: "py_strip s = CHR ''{'' # mid @ [CHR ''}'']"
    unfolding s by (rule py_strip_padded[OF assms(1,2)])
  have bs: "brace_search s = Some (CHR ''{'' # mid @ [CHR ''}''])"
    unfolding s by (rule brace_search_padded[OF assms(1,2)])
  have a: "extract_json loads (''```json'' @ s @ ''```'') = Inr ([CHR ''{''] @ mid @ [CHR ''}''])"
    using extract_json_fenced[OF assms(4) l refl, of loads] st by simp
  have b: "extract_json loads s = Inr ([CHR ''{''] @ mid @ [CHR ''}''])"
    using extract_json_bare[OF assms(4), of loads] bs by simp
  show ?thesis by (simp only: a b)
qed

text \<open>An instance of C9: an object on a line of its own between the fences.\<close>

theorem extract_json_fenced_same_witness:
  \<open>extract_json loads_fence_example (''```json'' @ ([CHR 0x0A] @ ''{"a": "b"}'' @ [CHR 0x0A]) @ ''```'')
     = Inr ''{"a": "b"}''
   \<and> extract_json loads_fence_example ([CHR 0x0A] @ ''{"a": "b"}'' @ [CHR 0x0A]) = Inr ''{"a": "b"}''\<close>
proof -
  have sp: "\<forall>c \<in> set [CHR 0x0A]. is_space c" by (simp add: is_space_def)
  have nc: \<open>\<not> contains ''```'' ([CHR 0x0A] @ ''{"a": "b"}'' @ [CHR 0x0A])\<close> by code_simp
  from extract_json_fenced_same[OF sp sp _ nc, of \<open>''"a": "b"''\<close> loads_fence_example]
  show ?thesis by simp
qed

section \<open>Properties of the completion client\<close>

lemma try_models_outcome:
  "(\<exists>i v. i < length ms
      \<and> (\<forall>j<i. \<not> is_Returned (attempt lib t p (ms ! j)))
      \<and> attempt lib t p (ms ! i) = Returned v
      \<and> try_models lib t msg p ms = (take (Suc i) ms, Inr v))
   \<or> ((\<forall>m \<in> set ms. \<not> is_Returned (attempt lib t p m))
      \<and> try_models lib t msg p ms = (ms, Inl (Exception msg)))"
proof (induction ms)
  case Nil
  then show ?case by simp
next
  case (Cons m ms)
  show ?case
  proof (cases "is_Returned (attempt lib t p m)")
    case True
    then obtain v where v: "attempt lib t p m = Returned v"
      by (cases "attempt lib t p m") auto
    then have "try_models lib t msg p (m # ms) = (take (Suc 0) (m # ms), Inr v)" by simp
    with v have "0 < length (m # ms)
      \<and> (\<forall>j<0. \<not> is_Returned (attempt lib t p ((m # ms) ! j)))
      \<and> attempt lib t p ((m # ms) ! 0) = Returned v
      \<and> try_models lib t msg p (m # ms) = (take (Suc 0) (m # ms), Inr v)" by simp
    then show ?thesis by blast
  next
    case False
    then have step: "try_models lib t msg p (m # ms) =
        (m # fst (try_models lib t msg p ms), snd (try_models lib t msg p ms))"
      by (cases "attempt lib t p m") (auto split: prod.splits)
    from Cons.IH show ?thesis
    proof
      assume "\<exists>i v. i < length ms
        \<and> (\<forall>j<i. \<not> is_Returned (attempt lib t p (ms ! j)))
        \<and> attempt lib t p (ms ! i) = Returned v
        \<and> try_models lib t msg p ms = (take (Suc i) ms, Inr v)"
      then obtain i v where i: "i < length ms"
        and before: "\<forall>j<i. \<not> is_Returned (attempt lib t p (ms ! j))"
        and at: "attempt lib t p (ms ! i) = Returned v"
        and res: "try_models lib t msg p ms = (take (Suc i) ms, Inr v)" by blast
      have "\<forall>j<Suc i. \<not> is_Returned (attempt lib t p ((m # ms) ! j))"
      proof (intro allI impI)
        fix j assume "j < Suc i"
        then show "\<not> is_Returned (attempt lib t p ((m # ms) ! j))"
          using False before by (cases j) auto
      qed
      moreover have "Suc i < length (m # ms)" using i by simp
      moreover have "attempt lib t p ((m # ms) ! Suc i) = Returned v" using at by simp
      moreover have "try_models lib t msg p (m # ms) = (take (Suc (Suc i)) (m # ms), Inr v)"
        using step res by simp
      ultimately show ?thesis by blast
    next
      assume "(\<forall>m \<in> set ms. \<not> is_Returned (attempt lib t p m))
        \<and> try_models lib t msg p ms = (ms, Inl (Exception msg))"
      with False step show ?thesis by simp
    qed
  qed
qed

lemma try_models_raises_iff:
  "(\<exists>e. snd (try_models lib t msg p ms) = Inl e)
     \<longleftrightarrow> (\<forall>m \<in> set ms. \<not> is_Returned (attempt lib t p m))"
proof -
  from try_models_outcome[of ms lib t p msg] show ?thesis
  proof
    assume "\<exists>i v. i < length ms
      \<and> (\<forall>j<i. \<not> is_Returned (attempt lib t p (ms ! j)))
      \<and> attempt lib t p (ms ! i) = Returned v
      \<and> try_models lib t msg p ms = (take (Suc i) ms, Inr v)"
    then obtain i v where i: "i < length ms" and at: "attempt lib t p (ms ! i) = Returned v"
      and res: "try_models lib t msg p ms = (take (Suc i) ms, Inr v)" by blast
    from i have "ms ! i \<in> set ms" by simp
    moreover from at have "is_Returned (attempt lib t p (ms ! i))" by simp
    ultimately have "\<not> (\<forall>m \<in> set ms. \<not> is_Returned (attempt lib t p m))" by blast
    with res show ?thesis by simp
  next
    assume "(\<forall>m \<in> set ms. \<not> is_Returned (attempt lib t p m))
      \<and> try_models lib t msg p ms = (ms, Inl (Exception msg))"
    then show ?thesis by simp
  qed
qed

lemma attempt_not_found:
  assumes "requests_post lib \<lparr>p_model = m, p_prompt = p, p_max_tokens = 512, p_temperature = t\<rparr>
      = Inr (Response 404 body)"
    and "contains ''Model not found'' body"
  shows "attempt lib t p m = ModelNotFound"
  using assms by (simp add: attempt_def)

lemma attempt_not_200:
  assumes "requests_post lib \<lparr>p_model = m, p_prompt = p, p_max_tokens = 512, p_temperature = t\<rparr>
      = Inr (Response code body)"
    and "code \<noteq> 200"
  shows "\<not> is_Returned (attempt lib t p m)"
  using assms by (simp add: attempt_def)

lemma attempt_exception:
  assumes "requests_post lib \<lparr>p_model = m, p_prompt = p, p_max_tokens = 512, p_temperature = t\<rparr>
      = Inl e"
  shows "attempt lib t p m = Raised e"
  using assms by (simp add: attempt_def)

lemma attempt_returned:
  assumes "attempt lib t p m = Returned v"
  shows "\<exists>body. requests_post lib \<lparr>p_model = m, p_prompt = p, p_max_tokens = 512, p_temperature = t\<rparr>
      = Inr (Response 200 body)
    \<and> and_then (json_loads lib body) (\<lambda>response_data.
         and_then (response_content lib response_data) (\<lambda>content.
         and_then (extract_json_of (json_loads lib) content) (\<lambda>json_str.
         json_loads lib json_str))) = Inr v"
proof (cases "requests_post lib \<lparr>p_model = m, p_prompt = p, p_max_tokens = 512, p_temperature = t\<rparr>")
  case (Inl e)
  with assms show ?thesis by (simp add: attempt_def)
next
  case (Inr response)
  obtain code body where r: "response = Response code body" by (cases response)
  with Inr assms have code: "code = 200" by (auto simp: attempt_def split: if_splits)
  with Inr r assms show ?thesis
    by (auto simp: attempt_def split: sum.splits)
qed

lemma attempt_200:
  assumes "requests_post lib \<lparr>p_model = m, p_prompt = p, p_max_tokens = 512, p_temperature = t\<rparr>
      = Inr (Response 200 body)"
  shows "attempt lib t p m =
     (case and_then (json_loads lib body) (\<lambda>response_data.
           and_then (response_content lib response_data) (\<lambda>content.
           and_then (extract_json_of (json_loads lib) content) (\<lambda>json_str.
           json_loads lib json_str))) of
        Inl e \<Rightarrow> Raised e
      | Inr v \<Rightarrow> Returned v)"
  using assms by (simp add: attempt_def)

lemma attempt_returned_iff:
  "attempt lib t p m = Returned v \<longleftrightarrow>
     (\<exists>body. requests_post lib \<lparr>p_model = m, p_prompt = p, p_max_tokens = 512, p_temperature = t\<rparr>
          = Inr (Response 200 body)
        \<and> and_then (json_loads lib body) (\<lambda>response_data.
             and_then (response_content lib response_data) (\<lambda>content.
             and_then (extract_json_of (json_loads lib) content) (\<lambda>json_str.
             json_loads lib json_str))) = Inr v)"
proof
  assume "attempt lib t p m = Returned v"
  then show "\<exists>body. requests_post lib \<lparr>p_model = m, p_prompt = p, p_max_tokens = 512, p_temperature = t\<rparr>
          = Inr (Response 200 body)
        \<and> and_then (json_loads lib body) (\<lambda>response_data.
             and_then (response_content lib response_data) (\<lambda>content.
             and_then (extract_json_of (json_loads lib) content) (\<lambda>json_str.
             json_loads lib json_str))) = Inr v"
    by (rule attempt_returned)
next
  assume "\<exists>body. requests_post lib \<lparr>p_model = m, p_prompt = p, p_max_tokens = 512, p_temperature = t\<rparr>
          = Inr (Response 200 body)
        \<and> and_then (json_loads lib body) (\<lambda>response_data.
             and_then (response_content lib response_data) (\<lambda>content.
             and_then (extract_json_of (json_loads lib) content) (\<lambda>json_str.
             json_loads lib json_str))) = Inr v"
  then obtain body where
    post: "requests_post lib \<lparr>p_model = m, p_prompt = p, p_max_tokens = 512, p_temperature = t\<rparr>
          = Inr (Response 200 body)"
    and chain: "and_then (json_loads lib body) (\<lambda>response_data.
             and_then (response_content lib response_data) (\<lambda>content.
             and_then (extract_json_of (json_loads lib) content) (\<lambda>json_str.
             json_loads lib json_str))) = Inr v"
    by (elim exE conjE)
  show "attempt lib t p m = Returned v"
    unfolding attempt_200[OF post] chain by simp
qed

lemma attempt_api_error:
  assumes "requests_post lib \<lparr>p_model = m, p_prompt = p, p_max_tokens = 512, p_temperature = t\<rparr>
      = Inr (Response code body)"
    and "code \<noteq> 200"
    and "\<not> (code = 404 \<and> contains ''Model not found'' body)"
  shows "attempt lib t p m = ApiError code body"
  using assms by (simp add: attempt_def)

lemma all_models_list:
  "all_models = [''sambanova-llm'', ''sambanova-chat'', ''sambanova-1.5-chat'', ''llama-7b'', ''llama2-7b'']"
  by (simp add: all_models_def SAMBANOVA_MODEL_NAME_def ALTERNATIVE_MODELS_def)

section \<open>The claim about model fallback\<close>

text \<open>Claim C2, as stated, fails: the call returns whatever JSON value the first
  parseable answer holds, not only an object. When the primary model answers 200 with
  the list \<open>[1]\<close> and the first alternate answers 200 with a JSON object, the call returns
  the list from the primary model, and no request goes to the alternate, whose answer
  would have been returned as well.\<close>

theorem make_api_request_array_counterexample:
  "evaluator_make_api_request (lib_array_example :: unit library) () =
       ([''sambanova-llm''], Inr (JArr [JInt 1]))
   \<and> generator_make_api_request (lib_array_example :: unit library) () =
       ([''sambanova-llm''], Inr (JArr [JInt 1]))
   \<and> attempt (lib_array_example :: unit library) (3 / 10) () ''sambanova-chat'' =
       Returned (JObj [(''is_correct'', JBool True), (''explanation'', JStr ''Good'')])"
  by code_simp

text \<open>Claim C2, amended. \<open>_make_api_request\<close>, in the generator and in the evaluator, tries
  the primary model and then the alternates in their listed order. A candidate succeeds
  exactly when it answers 200 and the JSON text extracted from the content of the answer
  parses, to a JSON value of any kind (an object, a list, a text, a number, a truth value
  or null). A 404 response with "Model not found", any other status that is not 200, an
  exception of the request, and an exception while the answer of a 200 response is read
  make the loop go on to the next candidate. The call returns the value parsed from the
  first candidate that succeeds, having sent requests to the candidates up to that one
  only, each once; and it raises if and only if no candidate succeeds.\<close>

theorem make_api_request_first_success:
  "all_models = [''sambanova-llm'', ''sambanova-chat'', ''sambanova-1.5-chat'', ''llama-7b'', ''llama2-7b'']
   \<and> ((\<exists>i v. i < length all_models
          \<and> (\<forall>j<i. \<not> is_Returned (attempt lib (7 / 10) p (all_models ! j)))
          \<and> attempt lib (7 / 10) p (all_models ! i) = Returned v
          \<and> generator_make_api_request lib p = (take (Suc i) all_models, Inr v))
        \<or> ((\<forall>m \<in> set all_models. \<not> is_Returned (attempt lib (7 / 10) p m))
          \<and> generator_make_api_request lib p =
              (all_models, Inl (Exception ''All models failed to generate a question''))))
   \<and> ((\<exists>e. snd (generator_make_api_request lib p) = Inl e)
        \<longleftrightarrow> (\<forall>m \<in> set all_models. \<not> is_Returned (attempt lib (7 / 10) p m)))
   \<and> ((\<exists>i v. i < length all_models
          \<and> (\<forall>j<i. \<not> is_Returned (attempt lib (3 / 10) q (all_models ! j)))
          \<and> attempt lib (3 / 10) q (all_models ! i) = Returned v
          \<and> evaluator_make_api_request lib q = (take (Suc i) all_models, Inr v))
        \<or> ((\<forall>m \<in> set all_models. \<not> is_Returned (attempt lib (3 / 10) q m))
          \<and> evaluator_make_api_request lib q =
              (all_models, Inl (Exception ''All models failed to evaluate the answer''))))
   \<and> ((\<exists>e. snd (evaluator_make_api_request lib q) = Inl e)
        \<longleftrightarrow> (\<forall>m \<in> set all_models. \<not> is_Returned (attempt lib (3 / 10) q m)))
   \<and> (requests_post lib \<lparr>p_model = m, p_prompt = r, p_max_tokens = 512, p_temperature = t\<rparr>
          = Inr (Response 404 body) \<and> contains ''Model not found'' body
        \<longrightarrow> attempt lib t r m = ModelNotFound)
   \<and> (requests_post lib \<lparr>p_model = m, p_prompt = r, p_max_tokens = 512, p_temperature = t\<rparr>
          = Inr (Response code body) \<and> code \<noteq> 200
        \<longrightarrow> \<not> is_Returned (attempt lib t r m))
   \<and> (requests_post lib \<lparr>p_model = m, p_prompt = r, p_max_tokens = 512, p_temperature = t\<rparr>
          = Inr (Response code body) \<and> code \<noteq> 200
          \<and> \<not> (code = 404 \<and> contains ''Model not found'' body)
        \<longrightarrow> attempt lib t r m = ApiError code body)
   \<and> (requests_post lib \<lparr>p_model = m, p_prompt = r, p_max_tokens = 512, p_temperature = t\<rparr>
          = Inl e
        \<longrightarrow> attempt lib t r m = Raised e)
   \<and> (requests_post lib \<lparr>p_model = m, p_prompt = r, p_max_tokens = 512, p_temperature = t\<rparr>
          = Inr (Response 200 answer)
        \<longrightarrow> attempt lib t r m =
             (case and_then (json_loads lib answer) (\<lambda>response_data.
                   and_then (response_content lib response_data) (\<lambda>content.
                   and_then (extract_json_of (json_loads lib) content) (\<lambda>json_str.
                   json_loads lib json_str))) of
                Inl e \<Rightarrow> Raised e
              | Inr v \<Rightarrow> Returned v))
   \<and> (attempt lib t r m = Returned v \<longleftrightarrow>
        (\<exists>body200.
           requests_post lib \<lparr>p_model = m, p_prompt = r, p_max_tokens = 512, p_temperature = t\<rparr>
             = Inr (Response 200 body200)
           \<and> and_then (json_loads lib body200) (\<lambda>response_data.
                and_then (response_content lib response_data) (\<lambda>content.
                and_then (extract_json_of (json_loads lib) content) (\<lambda>json_str.
                json_loads lib json_str))) = Inr v))"
proof (intro conjI)
  show "all_models = [''sambanova-llm'', ''sambanova-chat'', ''sambanova-1.5-chat'', ''llama-7b'', ''llama2-7b'']"
    by (rule all_models_list)
  show "(\<exists>i v. i < length all_models
          \<and> (\<forall>j<i. \<not> is_Returned (attempt lib (7 / 10) p (all_models ! j)))
          \<and> attempt lib (7 / 10) p (all_models ! i) = Returned v
          \<and> generator_make_api_request lib p = (take (Suc i) all_models, Inr v))
        \<or> ((\<forall>m \<in> set all_models. \<not> is_Returned (attempt lib (7 / 10) p m))
          \<and> generator_make_api_request lib p =
              (all_models, Inl (Exception ''All models failed to generate a question'')))"
    unfolding generator_make_api_request_def by (rule try_models_outcome)
  show "(\<exists>e. snd (generator_make_api_request lib p) = Inl e)
        \<longleftrightarrow> (\<forall>m \<in> set all_models. \<not> is_Returned (attempt lib (7 / 10) p m))"
    unfolding generator_make_api_request_def by (rule try_models_raises_iff)
  show "(\<exists>i v. i < length all_models
          \<and> (\<forall>j<i. \<not> is_Returned (attempt lib (3 / 10) q (all_models ! j)))
          \<and> attempt lib (3 / 10) q (all_models ! i) = Returned v
          \<and> evaluator_make_api_request lib q = (take (Suc i) all_models, Inr v))
        \<or> ((\<forall>m \<in> set all_models. \<not> is_Returned (attempt lib (3 / 10) q m))
          \<and> evaluator_make_api_request lib q =
              (all_models, Inl (Exception ''All models failed to evaluate the answer'')))"
    unfolding evaluator_make_api_request_def by (rule try_models_outcome)
  show "(\<exists>e. snd (evaluator_make_api_request lib q) = Inl e)
        \<longleftrightarrow> (\<forall>m \<in> set all_models. \<not> is_Returned (attempt lib (3 / 10) q m))"
    unfolding evaluator_make_api_request_def by (rule try_models_raises_iff)
  show "requests_post lib \<lparr>p_model = m, p_prompt = r, p_max_tokens = 512, p_temperature = t\<rparr>
          = Inr (Response 404 body) \<and> contains ''Model not found'' body
        \<longrightarrow> attempt lib t r m = ModelNotFound"
    by (rule impI, elim conjE, rule attempt_not_found)
  show "requests_post lib \<lparr>p_model = m, p_prompt = r, p_max_tokens = 512, p_temperature = t\<rparr>
          = Inr (Response code body) \<and> code \<noteq> 200
        \<longrightarrow> \<not> is_Returned (attempt lib t r m)"
    by (rule impI, elim conjE, rule attempt_not_200)
  show "requests_post lib \<lparr>p_model = m, p_prompt = r, p_max_tokens = 512, p_temperature = t\<rparr>
          = Inr (Response code body) \<and> code \<noteq> 200
          \<and> \<not> (code = 404 \<and> contains ''Model not found'' body)
        \<longrightarrow> attempt lib t r m = ApiError code body"
    by (rule impI, elim conjE, rule attempt_api_error)
  show "requests_post lib \<lparr>p_model = m, p_prompt = r, p_max_tokens = 512, p_temperature = t\<rparr>
          = Inl e
        \<longrightarrow> attempt lib t r m = Raised e"
    by (rule impI, rule attempt_exception)
  show "requests_post lib \<lparr>p_model = m, p_prompt = r, p_max_tokens = 512, p_temperature = t\<rparr>
          = Inr (Response 200 answer)
        \<longrightarrow> attempt lib t r m =
             (case and_then (json_loads lib answer) (\<lambda>response_data.
                   and_then (response_content lib response_data) (\<lambda>content.
                   and_then (extract_json_of (json_loads lib) content) (\<lambda>json_str.
                   json_loads lib json_str))) of
                Inl e \<Rightarrow> Raised e
              | Inr v \<Rightarrow> Returned v)"
    by (rule impI, rule attempt_200)
  show "attempt lib t r m = Returned v \<longleftrightarrow>
        (\<exists>body200.
           requests_post lib \<lparr>p_model = m, p_prompt = r, p_max_tokens = 512, p_temperature = t\<rparr>
             = Inr (Response 200 body200)
           \<and> and_then (json_loads lib body200) (\<lambda>response_data.
                and_then (response_content lib response_data) (\<lambda>content.
                and_then (extract_json_of (json_loads lib) content) (\<lambda>json_str.
                json_loads lib json_str))) = Inr v)"
    by (rule attempt_returned_iff)
qed

text \<open>An instance of C2: the primary model answers 404 with "Model not found", the first
  alternate answers 200 with a JSON object inside a \<open>json\<close> fence; the first alternate
  succeeds, and the call returns the object and has sent two requests, one to each of the
  two models.\<close>

theorem make_api_request_first_success_witness:
  \<open>requests_post (lib_fallback_example :: unit library)
       \<lparr>p_model = ''sambanova-llm'', p_prompt = (), p_max_tokens = 512, p_temperature = 3 / 10\<rparr>
     = Inr (Response 404 ''{"error": "Model not found"}'')
   \<and> attempt (lib_fallback_example :: unit library) (3 / 10) () ''sambanova-llm'' = ModelNotFound
   \<and> requests_post (lib_fallback_example :: unit library)
       \<lparr>p_model = ''sambanova-chat'', p_prompt = (), p_max_tokens = 512, p_temperature = 3 / 10\<rparr>
     = Inr (Response 200 (''{"text": '' @
          json_quote (''```json '' @ ''{"is_correct": true, "explanation": "Good"}'' @ '' ```'') @ ''}''))
   \<and> attempt (lib_fallback_example :: unit library) (3 / 10) () ''sambanova-chat'' =
       Returned (JObj [(''is_correct'', JBool True), (''explanation'', JStr ''Good'')])
   \<and> evaluator_make_api_request (lib_fallback_example :: unit library) () =
       ([''sambanova-llm'', ''sambanova-chat''],
        Inr (JObj [(''is_correct'', JBool True), (''explanation'', JStr ''Good'')]))
   \<and> (\<exists>m \<in> set all_models.
        is_Returned (attempt (lib_fallback_example :: unit library) (3 / 10) () m))\<close>
proof -
  let ?lib = "lib_fallback_example :: unit library"
  let ?obj = "JObj [(''is_correct'', JBool True), (''explanation'', JStr ''Good'')]"
  let ?answer = \<open>''{"text": '' @
      json_quote (''```json '' @ ''{"is_correct": true, "explanation": "Good"}'' @ '' ```'') @ ''}''\<close>
  note T = make_api_request_first_success[of ?lib "()" "()" "''sambanova-llm''" "()" "3 / 10"
      \<open>''{"error": "Model not found"}''\<close> 404 RequestException ?answer JNull]
  have post: \<open>requests_post ?lib
       \<lparr>p_model = ''sambanova-llm'', p_prompt = (), p_max_tokens = 512, p_temperature = 3 / 10\<rparr>
     = Inr (Response 404 ''{"error": "Model not found"}'')\<close>
    by (simp add: lib_fallback_example_def)
  have marker: \<open>contains ''Model not found'' ''{"error": "Model not found"}''\<close>
    by code_simp
  from T post marker have nf: "attempt ?lib (3 / 10) () ''sambanova-llm'' = ModelNotFound"
    by blast
  have post2: "requests_post ?lib
       \<lparr>p_model = ''sambanova-chat'', p_prompt = (), p_max_tokens = 512, p_temperature = 3 / 10\<rparr>
     = Inr (Response 200 ?answer)"
    by (simp add: lib_fallback_example_def)
  have chain: "and_then (json_loads ?lib ?answer) (\<lambda>response_data.
         and_then (response_content ?lib response_data) (\<lambda>content.
         and_then (extract_json_of (json_loads ?lib) content) (\<lambda>json_str.
         json_loads ?lib json_str))) = Inr ?obj"
    by code_simp
  note U = make_api_request_first_success[of ?lib "()" "()" "''sambanova-chat''" "()" "3 / 10"
      ?answer 503 RequestException ?answer ?obj]
  from U post2 chain have ok: "attempt ?lib (3 / 10) () ''sambanova-chat'' = Returned ?obj"
    by blast
  have res: "evaluator_make_api_request ?lib () = ([''sambanova-llm'', ''sambanova-chat''], Inr ?obj)"
    by code_simp
  from T have "(\<exists>e. snd (evaluator_make_api_request ?lib ()) = Inl e)
        \<longleftrightarrow> (\<forall>m \<in> set all_models. \<not> is_Returned (attempt ?lib (3 / 10) () m))"
    by blast
  with res have some: "\<exists>m \<in> set all_models. is_Returned (attempt ?lib (3 / 10) () m)"
    by simp
  from post nf post2 ok res some show ?thesis by (intro conjI)
qed

section \<open>Properties of question generation\<close>

lemma fallback_entry:
  "\<exists>fq fe. generate_fallback_question skill level =
       Inr [(''question'', JStr fq), (''expected_answer'', JStr fe)]
     \<and> fq \<noteq> [] \<and> fe \<noteq> []"
proof -
  consider "level = ''Beginner''" | "level = ''Intermediate''" | "level = ''Advanced''"
    | "level \<noteq> ''Beginner''" "level \<noteq> ''Intermediate''" "level \<noteq> ''Advanced''"
    by blast
  then show ?thesis
  proof cases
    case 1
    then show ?thesis by (simp add: generate_fallback_question_def fallback_questions_def)
  next
    case 2
    then show ?thesis by (simp add: generate_fallback_question_def fallback_questions_def)
  next
    case 3
    then show ?thesis by (simp add: generate_fallback_question_def fallback_questions_def)
  next
    case 4
    then show ?thesis by (simp add: generate_fallback_question_def fallback_questions_def)
  qed
qed

lemma dict_lookup:
  assumes "is_dict_with keys (JObj items)" "k \<in> set keys"
  shows "\<exists>v. map_of items k = Some v \<and> subscript (JObj items) k = Inr v"
proof -
  from assms have "k \<in> set (map fst items)"
    by (auto simp: is_dict_with_def list_all_iff)
  then have "map_of items k \<noteq> None" by (simp add: map_of_eq_None_iff)
  then show ?thesis by (auto simp: getitem_def)
qed

lemma text_question_fallback:
  assumes "\<not> (\<exists>v. snd (generator_make_api_request lib (TextQuestionPrompt skill level)) = Inr v
      \<and> is_dict_with [''question'', ''expected_answer''] v)"
    and "generate_fallback_question skill level = Inr [(''question'', JStr fq), (''expected_answer'', JStr fe)]"
  shows "generate_text_question lib skill level =
     Inr [(''question_type'', JStr ''Text''), (''question_content'', JStr fq),
          (''expected_answer'', JStr fe), (''media_path'', JNull)]"
proof (cases "snd (generator_make_api_request lib (TextQuestionPrompt skill level))")
  case (Inl e)
  then show ?thesis
    by (simp add: generate_text_question_def create_text_question_prompt_def Let_def
        and_then_def assms(2) getitem_def)
next
  case (Inr v)
  with assms(1) have "\<not> is_dict_with [''question'', ''expected_answer''] v" by simp
  with Inr show ?thesis
    by (simp add: generate_text_question_def create_text_question_prompt_def Let_def
        and_then_def assms(2) getitem_def)
qed

lemma audio_question_fallback:
  assumes "\<not> (\<exists>v. snd (generator_make_api_request lib (AudioQuestionPrompt skill level)) = Inr v
      \<and> is_dict_with [''audio_scenario'', ''question'', ''expected_answer''] v)"
    and "generate_fallback_question skill level = Inr [(''question'', JStr fq), (''expected_answer'', JStr fe)]"
  shows "generate_audio_question lib skill level =
     Inr [(''question_type'', JStr ''Audio''),
          (''question_content'', JStr (''Audio Scenario: '' @
             (''Imagine you are listening to a conversation about '' @ skill @
              ''. The speakers are discussing key aspects and challenges.'') @
             [CHR 0x0A, CHR 0x0A] @ ''Question: '' @ fq)),
          (''expected_answer'', JStr fe), (''media_path'', JNull)]"
proof (cases "snd (generator_make_api_request lib (AudioQuestionPrompt skill level))")
  case (Inl e)
  then show ?thesis
    by (simp add: generate_audio_question_def Let_def and_then_def assms(2) getitem_def py_str_def)
next
  case (Inr v)
  with assms(1) have "\<not> is_dict_with [''audio_scenario'', ''question'', ''expected_answer''] v" by simp
  with Inr show ?thesis
    by (simp add: generate_audio_question_def Let_def and_then_def assms(2) getitem_def py_str_def)
qed

lemma image_question_fallback:
  assumes "\<not> (\<exists>v. snd (generator_make_api_request lib (ImageQuestionPrompt skill level)) = Inr v
      \<and> is_dict_with [''image_description'', ''question'', ''expected_answer''] v)"
    and "generate_fallback_question skill level = Inr [(''question'', JStr fq), (''expected_answer'', JStr fe)]"
  shows "generate_image_question lib skill level =
     Inr [(''question_type'', JStr ''Image''),
          (''question_content'', JStr (''Look at the image and answer: '' @ fq)),
          (''expected_answer'', JStr fe),
          (''image_description'', JStr (''A professional workplace scene showing people demonstrating '' @
             skill @ '' in different ways.'')),
          (''media_path'', JNull)]"
proof (cases "snd (generator_make_api_request lib (ImageQuestionPrompt skill level))")
  case (Inl e)
  then show ?thesis
    by (simp add: generate_image_question_def Let_def and_then_def assms(2) getitem_def py_str_def)
next
  case (Inr v)
  with assms(1) have "\<not> is_dict_with [''image_description'', ''question'', ''expected_answer''] v" by simp
  with Inr show ?thesis
    by (simp add: generate_image_question_def Let_def and_then_def assms(2) getitem_def py_str_def)
qed

lemma text_question_success:
  assumes "snd (generator_make_api_request lib (TextQuestionPrompt skill level)) = Inr (JObj items)"
    and "is_dict_with [''question'', ''expected_answer''] (JObj items)"
  shows "\<exists>q e. map_of items ''question'' = Some q \<and> map_of items ''expected_answer'' = Some e
    \<and> generate_text_question lib skill level =
       Inr [(''question_type'', JStr ''Text''), (''question_content'', q),
            (''expected_answer'', e), (''media_path'', JNull)]"
proof -
  from dict_lookup[OF assms(2), of "''question''"] obtain q
    where q: "map_of items ''question'' = Some q" "subscript (JObj items) ''question'' = Inr q"
    by auto
  from dict_lookup[OF assms(2), of "''expected_answer''"] obtain e
    where e: "map_of items ''expected_answer'' = Some e" "subscript (JObj items) ''expected_answer'' = Inr e"
    by auto
  have "generate_text_question lib skill level =
       Inr [(''question_type'', JStr ''Text''), (''question_content'', q),
            (''expected_answer'', e), (''media_path'', JNull)]"
    by (simp add: generate_text_question_def Let_def and_then_def assms create_text_question_prompt_def q(2) e(2) del: subscript.simps)
  with q(1) e(1) show ?thesis by blast
qed

lemma audio_question_success:
  assumes "snd (generator_make_api_request lib (AudioQuestionPrompt skill level)) = Inr (JObj items)"
    and "is_dict_with [''audio_scenario'', ''question'', ''expected_answer''] (JObj items)"
  shows "\<exists>a q e. map_of items ''audio_scenario'' = Some a \<and> map_of items ''question'' = Some q \<and> map_of items ''expected_answer'' = Some e
    \<and> generate_audio_question lib skill level =
       Inr [(''question_type'', JStr ''Audio''),
            (''question_content'', JStr (''Audio Scenario: '' @ py_str lib a @
               [CHR 0x0A, CHR 0x0A] @ ''Question: '' @ py_str lib q)),
            (''expected_answer'', e), (''media_path'', JNull)]"
proof -
  from dict_lookup[OF assms(2), of "''audio_scenario''"] obtain a
    where a: "map_of items ''audio_scenario'' = Some a" "subscript (JObj items) ''audio_scenario'' = Inr a"
    by auto
  from dict_lookup[OF assms(2), of "''question''"] obtain q
    where q: "map_of items ''question'' = Some q" "subscript (JObj items) ''question'' = Inr q"
    by auto
  from dict_lookup[OF assms(2), of "''expected_answer''"] obtain e
    where e: "map_of items ''expected_answer'' = Some e" "subscript (JObj items) ''expected_answer'' = Inr e"
    by auto
  have "generate_audio_question lib skill level =
       Inr [(''question_type'', JStr ''Audio''),
            (''question_content'', JStr (''Audio Scenario: '' @ py_str lib a @
               [CHR 0x0A, CHR 0x0A] @ ''Question: '' @ py_str lib q)),
            (''expected_answer'', e), (''media_path'', JNull)]"
    by (simp add: generate_audio_question_def Let_def and_then_def assms a(2) q(2) e(2) del: subscript.simps)
  with a(1) q(1) e(1) show ?thesis by blast
qed

lemma image_question_success:
  assumes "snd (generator_make_api_request lib (ImageQuestionPrompt skill level)) = Inr (JObj items)"
    and "is_dict_with [''image_description'', ''question'', ''expected_answer''] (JObj items)"
  shows "\<exists>d q e. map_of items ''image_description'' = Some d \<and> map_of items ''question'' = Some q \<and> map_of items ''expected_answer'' = Some e
    \<and> generate_image_question lib skill level =
       Inr [(''question_type'', JStr ''Image''),
            (''question_content'', JStr (''Look at the image and answer the following question:'' @
               [CHR 0x0A, CHR 0x0A] @ py_str lib q)),
            (''expected_answer'', e), (''image_description'', d), (''media_path'', JNull)]"
proof -
  from dict_lookup[OF assms(2), of "''image_description''"] obtain d
    where d: "map_of items ''image_description'' = Some d" "subscript (JObj items) ''image_description'' = Inr d"
    by auto
  from dict_lookup[OF assms(2), of "''question''"] obtain q
    where q: "map_of items ''question'' = Some q" "subscript (JObj items) ''question'' = Inr q"
    by auto
  from dict_lookup[OF assms(2), of "''expected_answer''"] obtain e
    where e: "map_of items ''expected_answer'' = Some e" "subscript (JObj items) ''expected_answer'' = Inr e"
    by auto
  have "generate_image_question lib skill level =
       Inr [(''question_type'', JStr ''Image''),
            (''question_content'', JStr (''Look at the image and answer the following question:'' @
               [CHR 0x0A, CHR 0x0A] @ py_str lib q)),
            (''expected_answer'', e), (''image_description'', d), (''media_path'', JNull)]"
    by (simp add: generate_image_question_def Let_def and_then_def assms d(2) q(2) e(2) del: subscript.simps)
  with d(1) q(1) e(1) show ?thesis by blast
qed

lemma is_dict_with_obj: "is_dict_with keys v \<Longrightarrow> \<exists>items. v = JObj items"
  by (cases v) (auto simp: is_dict_with_def)

lemma generate_text_question_returns: "\<exists>d. generate_text_question lib skill level = Inr d"
proof (cases "\<exists>v. snd (generator_make_api_request lib (TextQuestionPrompt skill level)) = Inr v
      \<and> is_dict_with [''question'', ''expected_answer''] v")
  case True
  then obtain items where
    "snd (generator_make_api_request lib (TextQuestionPrompt skill level)) = Inr (JObj items)"
    "is_dict_with [''question'', ''expected_answer''] (JObj items)"
    using is_dict_with_obj by blast
  from text_question_success[OF this] show ?thesis by blast
next
  case False
  from fallback_entry[of skill level] text_question_fallback[OF False] show ?thesis by blast
qed

lemma generate_audio_question_returns: "\<exists>d. generate_audio_question lib skill level = Inr d"
proof (cases "\<exists>v. snd (generator_make_api_request lib (AudioQuestionPrompt skill level)) = Inr v
      \<and> is_dict_with [''audio_scenario'', ''question'', ''expected_answer''] v")
  case True
  then obtain items where
    "snd (generator_make_api_request lib (AudioQuestionPrompt skill level)) = Inr (JObj items)"
    "is_dict_with [''audio_scenario'', ''question'', ''expected_answer''] (JObj items)"
    using is_dict_with_obj by blast
  from audio_question_success[OF this] show ?thesis by blast
next
  case False
  from fallback_entry[of skill level] audio_question_fallback[OF False] show ?thesis by blast
qed

lemma generate_image_question_returns: "\<exists>d. generate_image_question lib skill level = Inr d"
proof (cases "\<exists>v. snd (generator_make_api_request lib (ImageQuestionPrompt skill level)) = Inr v
      \<and> is_dict_with [''image_description'', ''question'', ''expected_answer''] v")
  case True
  then obtain items where
    "snd (generator_make_api_request lib (ImageQuestionPrompt skill level)) = Inr (JObj items)"
    "is_dict_with [''image_description'', ''question'', ''expected_answer''] (JObj items)"
    using is_dict_with_obj by blast
  from image_question_success[OF this] show ?thesis by blast
next
  case False
  from fallback_entry[of skill level] image_question_fallback[OF False] show ?thesis by blast
qed

lemma generate_question_returns: "\<exists>d. generate_question lib skill level question_type = Inr d"
  using generate_text_question_returns[of lib skill level]
    generate_audio_question_returns[of lib skill level]
    generate_image_question_returns[of lib skill level]
    fallback_entry[of skill level]
  unfolding generate_question_def by (auto simp del: One_nat_def)

section \<open>The claim about question generation\<close>

text \<open>Claim C1, as stated, fails: the generator checks that the answer of the API has the
  required keys, not that their values are texts that are not empty. When the API answers
  with an empty question and an empty expected answer, these are returned.\<close>

theorem generate_question_empty_counterexample:
  "generate_question lib_empty_example ''Communication'' ''Beginner'' ''Text'' =
     Inr [(''question_type'', JStr ''Text''), (''question_content'', JStr []),
          (''expected_answer'', JStr []), (''media_path'', JNull)]"
  by code_simp

text \<open>Claim C1, amended. For every skill, level and question type, \<open>generate_question\<close>
  returns a question without raising. Whenever generation fails (every call of the API
  fails, or its answer is not an object with every required key), the question is built
  from the entry of the static fallback table for the level, whose question and expected
  answer are never empty; for a question type other than Text, Audio and Image the entry
  itself is returned, with the keys \<open>question\<close> and \<open>expected_answer\<close>. When the API
  answers with an object that has every required key, its values are returned as they
  are.\<close>

theorem generate_question_usable:
  "\<exists>fq fe.
     generate_fallback_question skill level =
       Inr [(''question'', JStr fq), (''expected_answer'', JStr fe)]
   \<and> fq \<noteq> [] \<and> fe \<noteq> []
   \<and> (\<exists>d. generate_question lib skill level question_type = Inr d)
   \<and> (question_type = ''Text''
        \<and> \<not> (\<exists>v. snd (generator_make_api_request lib (TextQuestionPrompt skill level)) = Inr v
                \<and> is_dict_with [''question'', ''expected_answer''] v)
      \<longrightarrow> generate_question lib skill level question_type =
            Inr [(''question_type'', JStr ''Text''), (''question_content'', JStr fq),
                 (''expected_answer'', JStr fe), (''media_path'', JNull)])
   \<and> (question_type = ''Audio''
        \<and> \<not> (\<exists>v. snd (generator_make_api_request lib (AudioQuestionPrompt skill level)) = Inr v
                \<and> is_dict_with [''audio_scenario'', ''question'', ''expected_answer''] v)
      \<longrightarrow> generate_question lib skill level question_type =
            Inr [(''question_type'', JStr ''Audio''),
                 (''question_content'', JStr (''Audio Scenario: '' @
                    (''Imagine you are listening to a conversation about '' @ skill @
                     ''. The speakers are discussing key aspects and challenges.'') @
                    [CHR 0x0A, CHR 0x0A] @ ''Question: '' @ fq)),
                 (''expected_answer'', JStr fe), (''media_path'', JNull)])
   \<and> (question_type = ''Image''
        \<and> \<not> (\<exists>v. snd (generator_make_api_request lib (ImageQuestionPrompt skill level)) = Inr v
                \<and> is_dict_with [''image_description'', ''question'', ''expected_answer''] v)
      \<longrightarrow> generate_question lib skill level question_type =
            Inr [(''question_type'', JStr ''Image''),
                 (''question_content'', JStr (''Look at the image and answer: '' @ fq)),
                 (''expected_answer'', JStr fe),
                 (''image_description'', JStr (''A professional workplace scene showing people demonstrating '' @
                    skill @ '' in different ways.'')),
                 (''media_path'', JNull)])
   \<and> (question_type \<noteq> ''Text'' \<and> question_type \<noteq> ''Audio'' \<and> question_type \<noteq> ''Image''
      \<longrightarrow> generate_question lib skill level question_type =
            Inr [(''question'', JStr fq), (''expected_answer'', JStr fe)])
   \<and> (question_type = ''Text''
        \<and> snd (generator_make_api_request lib (TextQuestionPrompt skill level)) = Inr (JObj items)
        \<and> is_dict_with [''question'', ''expected_answer''] (JObj items)
      \<longrightarrow> (\<exists>q e. map_of items ''question'' = Some q \<and> map_of items ''expected_answer'' = Some e
            \<and> generate_question lib skill level question_type =
               Inr [(''question_type'', JStr ''Text''), (''question_content'', q),
                    (''expected_answer'', e), (''media_path'', JNull)]))
   \<and> (question_type = ''Audio''
        \<and> snd (generator_make_api_request lib (AudioQuestionPrompt skill level)) = Inr (JObj items)
        \<and> is_dict_with [''audio_scenario'', ''question'', ''expected_answer''] (JObj items)
      \<longrightarrow> (\<exists>a q e. map_of items ''audio_scenario'' = Some a \<and> map_of items ''question'' = Some q
            \<and> map_of items ''expected_answer'' = Some e
            \<and> generate_question lib skill level question_type =
               Inr [(''question_type'', JStr ''Audio''),
                    (''question_content'', JStr (''Audio Scenario: '' @ py_str lib a @
                       [CHR 0x0A, CHR 0x0A] @ ''Question: '' @ py_str lib q)),
                    (''expected_answer'', e), (''media_path'', JNull)]))
   \<and> (question_type = ''Image''
        \<and> snd (generator_make_api_request lib (ImageQuestionPrompt skill level)) = Inr (JObj items)
        \<and> is_dict_with [''image_description'', ''question'', ''expected_answer''] (JObj items)
      \<longrightarrow> (\<exists>d q e. map_of items ''image_description'' = Some d \<and> map_of items ''question'' = Some q
            \<and> map_of items ''expected_answer'' = Some e
            \<and> generate_question lib skill level question_type =
               Inr [(''question_type'', JStr ''Image''),
                    (''question_content'', JStr (''Look at the image and answer the following question:'' @
                       [CHR 0x0A, CHR 0x0A] @ py_str lib q)),
                    (''expected_answer'', e), (''image_description'', d), (''media_path'', JNull)]))"
proof -
  from fallback_entry[of skill level] obtain fq fe where
    fb: "generate_fallback_question skill level =
       Inr [(''question'', JStr fq), (''expected_answer'', JStr fe)]"
    and ne: "fq \<noteq> []" "fe \<noteq> []" by blast
  have t: "question_type = ''Text'' \<Longrightarrow>
      generate_question lib skill level question_type = generate_text_question lib skill level"
    and a: "question_type = ''Audio'' \<Longrightarrow>
      generate_question lib skill level question_type = generate_audio_question lib skill level"
    and i: "question_type = ''Image'' \<Longrightarrow>
      generate_question lib skill level question_type = generate_image_question lib skill level"
    and o: "question_type \<noteq> ''Text'' \<and> question_type \<noteq> ''Audio'' \<and> question_type \<noteq> ''Image'' \<Longrightarrow>
      generate_question lib skill level question_type = generate_fallback_question skill level"
    by (simp_all add: generate_question_def)
  show ?thesis
  proof (rule exI[of _ fq], rule exI[of _ fe], intro conjI impI)
    show "generate_fallback_question skill level =
       Inr [(''question'', JStr fq), (''expected_answer'', JStr fe)]" by (rule fb)
    show "fq \<noteq> []" "fe \<noteq> []" by (rule ne)+
    show "\<exists>d. generate_question lib skill level question_type = Inr d"
      by (rule generate_question_returns)
  next
    assume h: "question_type = ''Text''
        \<and> \<not> (\<exists>v. snd (generator_make_api_request lib (TextQuestionPrompt skill level)) = Inr v
                \<and> is_dict_with [''question'', ''expected_answer''] v)"
    then show "generate_question lib skill level question_type =
            Inr [(''question_type'', JStr ''Text''), (''question_content'', JStr fq),
                 (''expected_answer'', JStr fe), (''media_path'', JNull)]"
      using text_question_fallback[OF _ fb, of lib] t by simp
  next
    assume h: "question_type = ''Audio''
        \<and> \<not> (\<exists>v. snd (generator_make_api_request lib (AudioQuestionPrompt skill level)) = Inr v
                \<and> is_dict_with [''audio_scenario'', ''question'', ''expected_answer''] v)"
    then show "generate_question lib skill level question_type =
            Inr [(''question_type'', JStr ''Audio''),
                 (''question_content'', JStr (''Audio Scenario: '' @
                    (''Imagine you are listening to a conversation about '' @ skill @
                     ''. The speakers are discussing key aspects and challenges.'') @
                    [CHR 0x0A, CHR 0x0A] @ ''Question: '' @ fq)),
                 (''expected_answer'', JStr fe), (''media_path'', JNull)]"
      using audio_question_fallback[OF _ fb, of lib] a by simp
  next
    assume h: "question_type = ''Image''
        \<and> \<not> (\<exists>v. snd (generator_make_api_request lib (ImageQuestionPrompt skill level)) = Inr v
                \<and> is_dict_with [''image_description'', ''question'', ''expected_answer''] v)"
    then show "generate_question lib skill level question_type =
            Inr [(''question_type'', JStr ''Image''),
                 (''question_content'', JStr (''Look at the image and answer: '' @ fq)),
                 (''expected_answer'', JStr fe),
                 (''image_description'', JStr (''A professional workplace scene showing people demonstrating '' @
                    skill @ '' in different ways.'')),
                 (''media_path'', JNull)]"
      using image_question_fallback[OF _ fb, of lib] i by simp
  next
    assume "question_type \<noteq> ''Text'' \<and> question_type \<noteq> ''Audio'' \<and> question_type \<noteq> ''Image''"
    then show "generate_question lib skill level question_type =
            Inr [(''question'', JStr fq), (''expected_answer'', JStr fe)]"
      using o fb by simp
  next
    assume h: "question_type = ''Text''
        \<and> snd (generator_make_api_request lib (TextQuestionPrompt skill level)) = Inr (JObj items)
        \<and> is_dict_with [''question'', ''expected_answer''] (JObj items)"
    then have "generate_question lib skill level question_type = generate_text_question lib skill level"
      using t by blast
    with text_question_success[of lib skill level items] h
    show "\<exists>q e. map_of items ''question'' = Some q \<and> map_of items ''expected_answer'' = Some e
            \<and> generate_question lib skill level question_type =
               Inr [(''question_type'', JStr ''Text''), (''question_content'', q),
                    (''expected_answer'', e), (''media_path'', JNull)]"
      by simp
  next
    assume h: "question_type = ''Audio''
        \<and> snd (generator_make_api_request lib (AudioQuestionPrompt skill level)) = Inr (JObj items)
        \<and> is_dict_with [''audio_scenario'', ''question'', ''expected_answer''] (JObj items)"
    then have "generate_question lib skill level question_type = generate_audio_question lib skill level"
      using a by blast
    with audio_question_success[of lib skill level items] h
    show "\<exists>a q e. map_of items ''audio_scenario'' = Some a \<and> map_of items ''question'' = Some q
            \<and> map_of items ''expected_answer'' = Some e
            \<and> generate_question lib skill level question_type =
               Inr [(''question_type'', JStr ''Audio''),
                    (''question_content'', JStr (''Audio Scenario: '' @ py_str lib a @
                       [CHR 0x0A, CHR 0x0A] @ ''Question: '' @ py_str lib q)),
                    (''expected_answer'', e), (''media_path'', JNull)]"
      by simp
  next
    assume h: "question_type = ''Image''
        \<and> snd (generator_make_api_request lib (ImageQuestionPrompt skill level)) = Inr (JObj items)
        \<and> is_dict_with [''image_description'', ''question'', ''expected_answer''] (JObj items)"
    then have "generate_question lib skill level question_type = generate_image_question lib skill level"
      using i by blast
    with image_question_success[of lib skill level items] h
    show "\<exists>d q e. map_of items ''image_description'' = Some d \<and> map_of items ''question'' = Some q
            \<and> map_of items ''expected_answer'' = Some e
            \<and> generate_question lib skill level question_type =
               Inr [(''question_type'', JStr ''Image''),
                    (''question_content'', JStr (''Look at the image and answer the following question:'' @
                       [CHR 0x0A, CHR 0x0A] @ py_str lib q)),
                    (''expected_answer'', e), (''image_description'', d), (''media_path'', JNull)]"
      by simp
  qed
qed

text \<open>Two instances of C1: a Text question for Communication at the Beginner level when
  every request fails, and an Audio question when the answer lacks \<open>expected_answer\<close> (the
  level "Expert" is not in the table, so the Intermediate entry is used).\<close>

theorem generate_question_usable_witness:
  \<open>snd (generator_make_api_request lib_down_example (TextQuestionPrompt ''Communication'' ''Beginner''))
     = Inl (Exception ''All models failed to generate a question'')
   \<and> generate_question lib_down_example ''Communication'' ''Beginner'' ''Text'' =
       Inr [(''question_type'', JStr ''Text''),
            (''question_content'', JStr ''Explain the core concepts of Communication at a beginner level. What are the fundamental ideas someone new to Communication should understand?''),
            (''expected_answer'', JStr ''A good answer should cover the basic principles of Communication, define key terminology, and explain foundational concepts without advanced jargon. The answer should be accessible to someone with no prior knowledge of Communication.''),
            (''media_path'', JNull)]
   \<and> snd (generator_make_api_request lib_missing_key_example (AudioQuestionPrompt ''Teamwork'' ''Expert''))
     = Inr (JObj [(''audio_scenario'', JStr ''A call''), (''question'', JStr ''What next?'')])
   \<and> generate_question lib_missing_key_example ''Teamwork'' ''Expert'' ''Audio'' =
       Inr [(''question_type'', JStr ''Audio''),
            (''question_content'', JStr (''Audio Scenario: Imagine you are listening to a conversation about Teamwork. The speakers are discussing key aspects and challenges.'' @
               [CHR 0x0A, CHR 0x0A] @
               ''Question: Describe the practical applications of Teamwork at an intermediate level. How would you implement Teamwork techniques in real-world scenarios?'')),
            (''expected_answer'', JStr ''A good answer should demonstrate clear understanding of Teamwork concepts, explain how to apply them in practice, include examples of common use cases, and show awareness of limitations or challenges when implementing Teamwork.''),
            (''media_path'', JNull)]\<close>
proof -
  have api1: "snd (generator_make_api_request lib_down_example (TextQuestionPrompt ''Communication'' ''Beginner''))
     = Inl (Exception ''All models failed to generate a question'')"
    by code_simp
  have fb1: "generate_fallback_question ''Communication'' ''Beginner'' =
     Inr [(''question'', JStr ''Explain the core concepts of Communication at a beginner level. What are the fundamental ideas someone new to Communication should understand?''),
          (''expected_answer'', JStr ''A good answer should cover the basic principles of Communication, define key terminology, and explain foundational concepts without advanced jargon. The answer should be accessible to someone with no prior knowledge of Communication.'')]"
    by code_simp
  have h1: "\<not> (\<exists>v. snd (generator_make_api_request lib_down_example
        (TextQuestionPrompt ''Communication'' ''Beginner'')) = Inr v
      \<and> is_dict_with [''question'', ''expected_answer''] v)"
    by (simp add: api1)
  have r1: "generate_question lib_down_example ''Communication'' ''Beginner'' ''Text'' =
       Inr [(''question_type'', JStr ''Text''),
            (''question_content'', JStr ''Explain the core concepts of Communication at a beginner level. What are the fundamental ideas someone new to Communication should understand?''),
            (''expected_answer'', JStr ''A good answer should cover the basic principles of Communication, define key terminology, and explain foundational concepts without advanced jargon. The answer should be accessible to someone with no prior knowledge of Communication.''),
            (''media_path'', JNull)]"
    using generate_question_usable[of "''Communication''" "''Beginner''" lib_down_example "''Text''" "[]"]
  proof (elim exE conjE)
    fix fq fe
    assume e1: "generate_fallback_question ''Communication'' ''Beginner'' =
       Inr [(''question'', JStr fq), (''expected_answer'', JStr fe)]"
    assume c1: "''Text'' = ''Text''
        \<and> \<not> (\<exists>v. snd (generator_make_api_request lib_down_example
                (TextQuestionPrompt ''Communication'' ''Beginner'')) = Inr v
              \<and> is_dict_with [''question'', ''expected_answer''] v)
      \<longrightarrow> generate_question lib_down_example ''Communication'' ''Beginner'' ''Text'' =
            Inr [(''question_type'', JStr ''Text''), (''question_content'', JStr fq),
                 (''expected_answer'', JStr fe), (''media_path'', JNull)]"
    from e1 have v1: "fq = ''Explain the core concepts of Communication at a beginner level. What are the fundamental ideas someone new to Communication should understand?''"
      "fe = ''A good answer should cover the basic principles of Communication, define key terminology, and explain foundational concepts without advanced jargon. The answer should be accessible to someone with no prior knowledge of Communication.''"
      unfolding fb1 by simp_all
    have "''Text'' = ''Text''
        \<and> \<not> (\<exists>v. snd (generator_make_api_request lib_down_example
                (TextQuestionPrompt ''Communication'' ''Beginner'')) = Inr v
              \<and> is_dict_with [''question'', ''expected_answer''] v)"
      using h1 by simp
    from mp[OF c1 this] show ?thesis unfolding v1 .
  qed
  have api2: \<open>snd (generator_make_api_request lib_missing_key_example (AudioQuestionPrompt ''Teamwork'' ''Expert''))
     = Inr (JObj [(''audio_scenario'', JStr ''A call''), (''question'', JStr ''What next?'')])\<close>
    by code_simp
  have nk: "\<not> is_dict_with [''audio_scenario'', ''question'', ''expected_answer'']
      (JObj [(''audio_scenario'', JStr ''A call''), (''question'', JStr ''What next?'')])"
    by code_simp
  have h2: "\<not> (\<exists>v. snd (generator_make_api_request lib_missing_key_example
        (AudioQuestionPrompt ''Teamwork'' ''Expert'')) = Inr v
      \<and> is_dict_with [''audio_scenario'', ''question'', ''expected_answer''] v)"
    using nk by (simp add: api2)
  have fb2: "generate_fallback_question ''Teamwork'' ''Expert'' =
     Inr [(''question'', JStr ''Describe the practical applications of Teamwork at an intermediate level. How would you implement Teamwork techniques in real-world scenarios?''),
          (''expected_answer'', JStr ''A good answer should demonstrate clear understanding of Teamwork concepts, explain how to apply them in practice, include examples of common use cases, and show awareness of limitations or challenges when implementing Teamwork.'')]"
    by code_simp
  have r2: "generate_question lib_missing_key_example ''Teamwork'' ''Expert'' ''Audio'' =
       Inr [(''question_type'', JStr ''Audio''),
            (''question_content'', JStr (''Audio Scenario: '' @
               (''Imagine you are listening to a conversation about '' @ ''Teamwork'' @
                ''. The speakers are discussing key aspects and challenges.'') @
               [CHR 0x0A, CHR 0x0A] @ ''Question: '' @
               ''Describe the practical applications of Teamwork at an intermediate level. How would you implement Teamwork techniques in real-world scenarios?'')),
            (''expected_answer'', JStr ''A good answer should demonstrate clear understanding of Teamwork concepts, explain how to apply them in practice, include examples of common use cases, and show awareness of limitations or challenges when implementing Teamwork.''),
            (''media_path'', JNull)]"
    using generate_question_usable[of "''Teamwork''" "''Expert''" lib_missing_key_example "''Audio''" "[]"]
  proof (elim exE conjE)
    fix gq ge
    assume e2: "generate_fallback_question ''Teamwork'' ''Expert'' =
       Inr [(''question'', JStr gq), (''expected_answer'', JStr ge)]"
    assume c2: "''Audio'' = ''Audio''
        \<and> \<not> (\<exists>v. snd (generator_make_api_request lib_missing_key_example
                (AudioQuestionPrompt ''Teamwork'' ''Expert'')) = Inr v
              \<and> is_dict_with [''audio_scenario'', ''question'', ''expected_answer''] v)
      \<longrightarrow> generate_question lib_missing_key_example ''Teamwork'' ''Expert'' ''Audio'' =
            Inr [(''question_type'', JStr ''Audio''),
                 (''question_content'', JStr (''Audio Scenario: '' @
                    (''Imagine you are listening to a conversation about '' @ ''Teamwork'' @
                     ''. The speakers are discussing key aspects and challenges.'') @
                    [CHR 0x0A, CHR 0x0A] @ ''Question: '' @ gq)),
                 (''expected_answer'', JStr ge), (''media_path'', JNull)]"
    from e2 have v2: "gq = ''Describe the practical applications of Teamwork at an intermediate level. How would you implement Teamwork techniques in real-world scenarios?''"
      "ge = ''A good answer should demonstrate clear understanding of Teamwork concepts, explain how to apply them in practice, include examples of common use cases, and show awareness of limitations or challenges when implementing Teamwork.''"
      unfolding fb2 by simp_all
    have "''Audio'' = ''Audio''
        \<and> \<not> (\<exists>v. snd (generator_make_api_request lib_missing_key_example
                (AudioQuestionPrompt ''Teamwork'' ''Expert'')) = Inr v
              \<and> is_dict_with [''audio_scenario'', ''question'', ''expected_answer''] v)"
      using h2 by simp
    from mp[OF c2 this] show ?thesis unfolding v2 .
  qed
  show ?thesis
    using api1 api2 r1 r2 by simp
qed

end
